theory Spec2Isabelle
  imports Complex_Main "HOL-Library.AList"
begin

section \<open>Values exchanged by the relay\<close>

text \<open>
  The server of \<^verbatim>\<open>main.py\<close> keeps its state in Python dictionaries and lists and
  exchanges JSON documents over web sockets. A JSON document, as \<^verbatim>\<open>json.loads\<close>
  returns it, is a value of \<open>json\<close>. A Python \<^verbatim>\<open>float\<close> is its exact rational value or
  one of the three special values; only comparisons with the integers \<open>100\<close> and \<open>-100\<close>
  are ever made on it, and Python compares an \<^verbatim>\<open>int\<close> with a \<^verbatim>\<open>float\<close> exactly.
\<close>

datatype pyfloat = Finite rat | PosInf | NegInf | NaN

datatype json =
    JNull
  | JBool bool
  | JInt int
  | JFloat pyfloat
  | JStr string
  | JArr "json list"
  | JObj "(string \<times> json) list"

text \<open>
  A Python \<^verbatim>\<open>dict\<close> with string keys: an association list with distinct keys, in
  insertion order. \<^verbatim>\<open>d.update({k1: v1, ...})\<close> overwrites a key where it stands and appends
  a new key at the end, which is what \<open>AList.update\<close> does.
\<close>

type_synonym dict = "(string \<times> json) list"

fun dict_update :: "dict \<Rightarrow> (string \<times> json) list \<Rightarrow> dict" where
  "dict_update d [] = d"
| "dict_update d ((k, v) # kvs) = dict_update (AList.update k v d) kvs"

text \<open>\<^verbatim>\<open>d.get(k)\<close>\<close>

definition dict_get :: "dict \<Rightarrow> string \<Rightarrow> json option" where
  "dict_get d k = map_of d k"

text \<open>Python's truth value of a JSON value (\<^verbatim>\<open>if x:\<close>).\<close>

fun truthy :: "json \<Rightarrow> bool" where
  "truthy JNull = False"
| "truthy (JBool b) = b"
| "truthy (JInt n) = (n \<noteq> 0)"
| "truthy (JFloat (Finite q)) = (q \<noteq> 0)"
| "truthy (JFloat _) = True"
| "truthy (JStr s) = (s \<noteq> [])"
| "truthy (JArr xs) = (xs \<noteq> [])"
| "truthy (JObj d) = (d \<noteq> [])"

section \<open>Exceptions\<close>

text \<open>
  Every exception the handlers can see: its class and the text \<^verbatim>\<open>str(e)\<close> gives.
  \<open>WebSocketDisconnect\<close> is the only class the outermost handlers of the two socket
  endpoints catch.
\<close>

datatype exn_class =
    JSONDecodeError
  | TypeError
  | KeyError
  | StorageError
  | WebSocketDisconnect
  | RuntimeError

datatype exn = Exn exn_class string

fun exn_cls :: "exn \<Rightarrow> exn_class" where
  "exn_cls (Exn c m) = c"

fun str_exn :: "exn \<Rightarrow> string" where
  "str_exn (Exn c m) = m"

section \<open>Connections and the wire\<close>

text \<open>
  A \<^verbatim>\<open>WebSocket\<close> object is compared by identity; it is modelled by a number.
  \<^verbatim>\<open>await connection.send_json(data)\<close> either returns or raises; the transport decides,
  per connection: \<open>None\<close> is a completed send, \<open>Some e\<close> the exception raised. Every
  attempted send is recorded on the wire, in order, with its outcome.
\<close>

type_synonym websocket = nat

type_synonym transport = "websocket \<Rightarrow> exn option"

type_synonym wire = "(websocket \<times> json \<times> exn option) list"

text \<open>The messages a connection has really received.\<close>

definition received :: "wire \<Rightarrow> websocket \<Rightarrow> json list" where
  "received w c = map (\<lambda>(c', m, r). m) (filter (\<lambda>(c', m, r). c' = c \<and> r = None) w)"

section \<open>ConnectionManager\<close>

text \<open>
  \<^verbatim>\<open>
  def disconnect_dashboard(self, websocket):
      if websocket in self.active_dashboard_connections:
          self.active_dashboard_connections.remove(websocket)
  \<close>
  \<^verbatim>\<open>list.remove\<close> deletes the first occurrence. \<open>disconnect_robot\<close> is the same code
  on the other pool; both are \<open>disconnect\<close> on a pool.
\<close>

definition disconnect :: "websocket \<Rightarrow> websocket list \<Rightarrow> websocket list" where
  "disconnect ws pool = (if ws \<in> set pool then remove1 ws pool else pool)"

text \<open>
  \<^verbatim>\<open>
  async def broadcast_sensor_data(self, data):
      for connection in self.active_dashboard_connections:
          try:
              await connection.send_json(data)
          except:
              self.disconnect_dashboard(connection)
  \<close>
  The \<^verbatim>\<open>for\<close> statement iterates over the pool itself, not over a copy: Python's list
  iterator keeps an index \<open>i\<close>, stops when \<open>i\<close> reaches the current length, and otherwise
  yields the element now at position \<open>i\<close> and increments \<open>i\<close>. The body may shorten the
  list meanwhile. \<open>send_action_to_robot\<close> is the same loop on the robot pool.
\<close>

function broadcast_from ::
  "transport \<Rightarrow> json \<Rightarrow> nat \<Rightarrow> websocket list \<Rightarrow> wire \<Rightarrow> websocket list \<times> wire" where
  "broadcast_from tx data i pool w =
     (if i < length pool then
        (let connection = pool ! i in
         case tx connection of
           None \<Rightarrow> broadcast_from tx data (Suc i) pool (w @ [(connection, data, None)])
         | Some e \<Rightarrow>
             broadcast_from tx data (Suc i) (disconnect connection pool)
               (w @ [(connection, data, Some e)]))
      else (pool, w))"
  by pat_completeness auto
termination
  by (relation "measure (\<lambda>(tx, data, i, pool, w). length pool - i)")
     (auto simp: disconnect_def length_remove1)

definition broadcast :: "transport \<Rightarrow> json \<Rightarrow> websocket list \<Rightarrow> wire \<Rightarrow> websocket list \<times> wire" where
  "broadcast tx data pool w = broadcast_from tx data 0 pool w"

section \<open>Comparisons, \<open>min\<close> and \<open>max\<close> on JSON values\<close>

text \<open>
  The robot socket clamps whatever value the JSON message carries:
  \<^verbatim>\<open>max(-100, min(100, action_data["left_motor"]))\<close>. Python's \<^verbatim>\<open>min(a, x)\<close> returns \<open>x\<close> when
  \<^verbatim>\<open>x < a\<close> and \<open>a\<close> otherwise; \<^verbatim>\<open>max(a, y)\<close> returns \<open>y\<close> when \<^verbatim>\<open>y > a\<close> and \<open>a\<close>
  otherwise. The comparison with an \<^verbatim>\<open>int\<close> is defined for \<^verbatim>\<open>int\<close>, \<^verbatim>\<open>bool\<close> (a subclass of
  \<^verbatim>\<open>int\<close>: \<open>True\<close> is 1) and \<^verbatim>\<open>float\<close> (false on both sides for NaN), and raises
  \<open>TypeError\<close> for \<open>None\<close>, strings, lists and dictionaries.
\<close>

fun type_name :: "json \<Rightarrow> string" where
  "type_name JNull = ''NoneType''"
| "type_name (JBool b) = ''bool''"
| "type_name (JInt n) = ''int''"
| "type_name (JFloat f) = ''float''"
| "type_name (JStr s) = ''str''"
| "type_name (JArr xs) = ''list''"
| "type_name (JObj d) = ''dict''"

text \<open>
  The texts of the exceptions are CPython's (3.11), with its quotation marks: a name
  between two apostrophes, as in
  \<^verbatim>\<open>'<' not supported between instances of 'str' and 'int'\<close>.
\<close>

definition quoted :: "string \<Rightarrow> string" where
  "quoted name = CHR 0x27 # name @ [CHR 0x27]"

definition not_supported :: "string \<Rightarrow> json \<Rightarrow> exn" where
  "not_supported opr x =
     Exn TypeError (quoted opr @ '' not supported between instances of '' @
                    quoted (type_name x) @ '' and '' @ quoted ''int'')"

fun py_lt :: "json \<Rightarrow> int \<Rightarrow> exn + bool" where
  "py_lt (JInt m) n = Inr (m < n)"
| "py_lt (JBool b) n = Inr ((if b then 1 else 0) < n)"
| "py_lt (JFloat (Finite q)) n = Inr (q < of_int n)"
| "py_lt (JFloat PosInf) n = Inr False"
| "py_lt (JFloat NegInf) n = Inr True"
| "py_lt (JFloat NaN) n = Inr False"
| "py_lt x n = Inl (not_supported ''<'' x)"

fun py_gt :: "json \<Rightarrow> int \<Rightarrow> exn + bool" where
  "py_gt (JInt m) n = Inr (m > n)"
| "py_gt (JBool b) n = Inr ((if b then 1 else 0) > n)"
| "py_gt (JFloat (Finite q)) n = Inr (q > of_int n)"
| "py_gt (JFloat PosInf) n = Inr True"
| "py_gt (JFloat NegInf) n = Inr False"
| "py_gt (JFloat NaN) n = Inr False"
| "py_gt x n = Inl (not_supported ''>'' x)"

definition py_min :: "int \<Rightarrow> json \<Rightarrow> exn + json" where
  "py_min a x = (case py_lt x a of Inl e \<Rightarrow> Inl e | Inr b \<Rightarrow> Inr (if b then x else JInt a))"

definition py_max :: "int \<Rightarrow> json \<Rightarrow> exn + json" where
  "py_max a y = (case py_gt y a of Inl e \<Rightarrow> Inl e | Inr b \<Rightarrow> Inr (if b then y else JInt a))"

text \<open>\<^verbatim>\<open>max(-100, min(100, x))\<close>\<close>

definition clamp_motor :: "json \<Rightarrow> exn + json" where
  "clamp_motor x = (case py_min 100 x of Inl e \<Rightarrow> Inl e | Inr m \<Rightarrow> py_max (- 100) m)"

text \<open>
  \<^verbatim>\<open>k in x\<close> for a string \<open>k\<close>: a key of a dictionary, an element of a list, a substring
  of a string; \<open>TypeError\<close> on the other values. \<^verbatim>\<open>x[k]\<close> for a string \<open>k\<close>: the value
  of the key in a dictionary (\<open>KeyError\<close> without it), \<open>TypeError\<close> on everything else.
\<close>

fun str_contains :: "string \<Rightarrow> string \<Rightarrow> bool" where
  "str_contains k [] = (k = [])"
| "str_contains k (c # cs) = (take (length k) (c # cs) = k \<or> str_contains k cs)"

fun py_in :: "string \<Rightarrow> json \<Rightarrow> exn + bool" where
  "py_in k (JObj d) = Inr (k \<in> set (map fst d))"
| "py_in k (JArr xs) = Inr (JStr k \<in> set xs)"
| "py_in k (JStr s) = Inr (str_contains k s)"
| "py_in k x =
     Inl (Exn TypeError (''argument of type '' @ quoted (type_name x) @ '' is not iterable''))"

fun py_getitem :: "json \<Rightarrow> string \<Rightarrow> exn + json" where
  "py_getitem (JObj d) k =
     (case map_of d k of Some v \<Rightarrow> Inr v | None \<Rightarrow> Inl (Exn KeyError (quoted k)))"
| "py_getitem (JArr xs) k =
     Inl (Exn TypeError ''list indices must be integers or slices, not str'')"
| "py_getitem (JStr s) k =
     Inl (Exn TypeError (''string indices must be integers, not '' @ quoted ''str''))"
| "py_getitem x k =
     Inl (Exn TypeError (quoted (type_name x) @ '' object is not subscriptable''))"

section \<open>Tables, request bodies and the server state\<close>

text \<open>
  The two SQLAlchemy tables. The storage engine is a library: a session's
  \<^verbatim>\<open>add\<close>/\<^verbatim>\<open>commit\<close>/\<^verbatim>\<open>refresh\<close> either appends the row, giving it the next primary key and the
  column default \<^verbatim>\<open>created_at\<close>, or raises and leaves the table as it was. Time stamps
  (\<^verbatim>\<open>time.time()\<close>, the \<^verbatim>\<open>timestamp\<close> of a sensor sample) are finite floats, hence rationals.
  The motor columns hold what SQLite keeps of the value the handler passes.
\<close>

record SensorData =
  sd_id :: int
  sd_sample_id :: int
  sd_timestamp :: rat
  sd_ir_sensor :: json
  sd_robot_info :: json
  sd_created_at :: string

record ActionData =
  ad_id :: int
  ad_timestamp :: rat
  ad_left_motor :: json
  ad_right_motor :: json
  ad_source :: string
  ad_created_at :: string

record IRSensorData =
  proximity :: "int option"
  remote_buttons :: "json option"
  beacon_distance :: "int option"
  beacon_heading :: "int option"

record RobotInfo =
  platform :: string
  python_version :: string

record SensorPayload =
  sample_id :: int
  timestamp :: rat
  ir_sensor :: IRSensorData
  robot_info :: RobotInfo

record ActionPayload =
  left_motor :: int
  right_motor :: int
  source :: "string option"

text \<open>
  The module-level state: the two caches (\<^verbatim>\<open>last_sensor_data\<close>, \<^verbatim>\<open>last_action\<close>), the two
  pools of the \<^verbatim>\<open>ConnectionManager\<close>, the two tables, and the wire.
\<close>

record state =
  last_sensor_data :: dict
  last_action :: dict
  active_dashboard_connections :: "websocket list"
  active_robot_connections :: "websocket list"
  sensor_table :: "SensorData list"
  action_table :: "ActionData list"
  wire :: wire

text \<open>
  What one run of a handler takes from its surroundings: the clock (\<^verbatim>\<open>time.time()\<close> when
  the row is built and again when the dashboards are notified), the ISO text of
  \<^verbatim>\<open>datetime.utcnow()\<close> for the row's \<^verbatim>\<open>created_at\<close> and for the handler's own call, the
  exception the storage session raises if it raises one, and the transport.
\<close>

record env =
  time_time :: rat
  time_time2 :: rat
  row_created_at :: string
  utcnow_isoformat :: string
  db_fault :: "exn option"
  send_json :: transport

datatype 'a response = Returned 'a | HTTPError nat string

text \<open>
  The module-level initial values:
  \<^verbatim>\<open>
  last_sensor_data = {}
  last_action = {"left_motor": 0, "right_motor": 0, "timestamp": None, "source": None}
  \<close>
\<close>

definition initial_last_action :: dict where
  "initial_last_action =
     [(''left_motor'', JInt 0), (''right_motor'', JInt 0),
      (''timestamp'', JNull), (''source'', JNull)]"

definition initial_state :: "SensorData list \<Rightarrow> ActionData list \<Rightarrow> state" where
  "initial_state sensors actions =
     \<lparr> last_sensor_data = [], last_action = initial_last_action,
       active_dashboard_connections = [], active_robot_connections = [],
       sensor_table = sensors, action_table = actions, wire = [] \<rparr>"

fun opt_int :: "int option \<Rightarrow> json" where
  "opt_int None = JNull"
| "opt_int (Some n) = JInt n"

fun opt_json :: "json option \<Rightarrow> json" where
  "opt_json None = JNull"
| "opt_json (Some v) = v"

text \<open>\<^verbatim>\<open>payload.ir_sensor.dict()\<close> and \<^verbatim>\<open>payload.robot_info.dict()\<close>\<close>

definition ir_sensor_dict :: "IRSensorData \<Rightarrow> json" where
  "ir_sensor_dict ir =
     JObj [(''proximity'', opt_int (proximity ir)),
           (''remote_buttons'', opt_json (remote_buttons ir)),
           (''beacon_distance'', opt_int (beacon_distance ir)),
           (''beacon_heading'', opt_int (beacon_heading ir))]"

definition robot_info_dict :: "RobotInfo \<Rightarrow> json" where
  "robot_info_dict ri =
     JObj [(''platform'', JStr (platform ri)), (''python_version'', JStr (python_version ri))]"

text \<open>
  \<^verbatim>\<open>query.order_by(desc(timestamp)).first()\<close>: a row with the greatest time stamp, \<open>None\<close>
  on an empty table. Both \<^verbatim>\<open>timestamp\<close> columns are indexed; among rows with the same time
  stamp SQLite, walking the index backwards, returns the last inserted.
\<close>

fun latest_by :: "('r \<Rightarrow> rat) \<Rightarrow> 'r list \<Rightarrow> 'r option" where
  "latest_by t [] = None"
| "latest_by t (r # rs) =
     (case latest_by t rs of
        None \<Rightarrow> Some r
      | Some r' \<Rightarrow> if t r' \<ge> t r then Some r' else Some r)"

text \<open>One send on a connection, recorded on the wire; the result is what it raises.\<close>

definition send :: "env \<Rightarrow> websocket \<Rightarrow> json \<Rightarrow> state \<Rightarrow> exn option \<times> state" where
  "send e ws data s =
     (send_json e ws, s\<lparr> wire := wire s @ [(ws, data, send_json e ws)] \<rparr>)"

definition connect_dashboard :: "websocket \<Rightarrow> state \<Rightarrow> state" where
  "connect_dashboard ws s =
     s\<lparr> active_dashboard_connections := active_dashboard_connections s @ [ws] \<rparr>"

definition connect_robot :: "websocket \<Rightarrow> state \<Rightarrow> state" where
  "connect_robot ws s = s\<lparr> active_robot_connections := active_robot_connections s @ [ws] \<rparr>"

definition disconnect_dashboard :: "websocket \<Rightarrow> state \<Rightarrow> state" where
  "disconnect_dashboard ws s =
     s\<lparr> active_dashboard_connections := disconnect ws (active_dashboard_connections s) \<rparr>"

definition disconnect_robot :: "websocket \<Rightarrow> state \<Rightarrow> state" where
  "disconnect_robot ws s =
     s\<lparr> active_robot_connections := disconnect ws (active_robot_connections s) \<rparr>"

definition broadcast_sensor_data :: "env \<Rightarrow> json \<Rightarrow> state \<Rightarrow> state" where
  "broadcast_sensor_data e data s =
     (case broadcast (send_json e) data (active_dashboard_connections s) (wire s) of
        (pool, w) \<Rightarrow> s\<lparr> active_dashboard_connections := pool, wire := w \<rparr>)"

definition send_action_to_robot :: "env \<Rightarrow> json \<Rightarrow> state \<Rightarrow> state" where
  "send_action_to_robot e data s =
     (case broadcast (send_json e) data (active_robot_connections s) (wire s) of
        (pool, w) \<Rightarrow> s\<lparr> active_robot_connections := pool, wire := w \<rparr>)"

section \<open>Telemetry endpoints\<close>

text \<open>
  \<^verbatim>\<open>POST /sensors/\<close>, \<open>store_sensor_data\<close>. The row is added and committed; a failure of
  the session is answered by a rollback and HTTP 500. Otherwise the cache is updated,
  the cache is broadcast to the dashboards (a broadcast raises nothing), and the
  identifiers of the row are returned.
\<close>

definition sensor_row :: "env \<Rightarrow> SensorPayload \<Rightarrow> state \<Rightarrow> SensorData" where
  "sensor_row e payload s =
     \<lparr> sd_id = int (length (sensor_table s)) + 1,
       sd_sample_id = sample_id payload,
       sd_timestamp = timestamp payload,
       sd_ir_sensor = ir_sensor_dict (ir_sensor payload),
       sd_robot_info = robot_info_dict (robot_info payload),
       sd_created_at = row_created_at e \<rparr>"

definition store_sensor_data :: "env \<Rightarrow> SensorPayload \<Rightarrow> state \<Rightarrow> json response \<times> state" where
  "store_sensor_data e payload s =
     (case db_fault e of
        Some x \<Rightarrow> (HTTPError 500 (''Error storing sensor data: '' @ str_exn x), s)
      | None \<Rightarrow>
          (let sensor_data = sensor_row e payload s;
               s1 = s\<lparr> sensor_table := sensor_table s @ [sensor_data] \<rparr>;
               s2 = s1\<lparr> last_sensor_data := dict_update (last_sensor_data s1)
                     [(''sample_id'', JInt (sample_id payload)),
                      (''timestamp'', JFloat (Finite (timestamp payload))),
                      (''ir_sensor'', ir_sensor_dict (ir_sensor payload)),
                      (''robot_info'', robot_info_dict (robot_info payload)),
                      (''db_id'', JInt (sd_id sensor_data)),
                      (''created_at'', JStr (utcnow_isoformat e))] \<rparr>;
               s3 = broadcast_sensor_data e (JObj (last_sensor_data s2)) s2
           in (Returned (JObj [(''message'', JStr ''Sensor data stored successfully''),
                               (''id'', JInt (sd_id sensor_data)),
                               (''sample_id'', JInt (sd_sample_id sensor_data))]), s3)))"

text \<open>The dictionary built from a stored sensor row (start-up and cache miss).\<close>

definition sensor_row_dict :: "SensorData \<Rightarrow> (string \<times> json) list" where
  "sensor_row_dict latest =
     [(''sample_id'', JInt (sd_sample_id latest)),
      (''timestamp'', JFloat (Finite (sd_timestamp latest))),
      (''ir_sensor'', sd_ir_sensor latest),
      (''robot_info'', sd_robot_info latest),
      (''db_id'', JInt (sd_id latest)),
      (''created_at'', JStr (sd_created_at latest))]"

text \<open>
  \<^verbatim>\<open>GET /sensors/latest\<close>, \<open>get_latest_sensor_data\<close>. The query runs only when the cache
  is empty and is taken to succeed.
\<close>

definition get_latest_sensor_data :: "state \<Rightarrow> json response \<times> state" where
  "get_latest_sensor_data s =
     (let s1 = (if last_sensor_data s = [] then
                  (case latest_by sd_timestamp (sensor_table s) of
                     Some latest \<Rightarrow>
                       s\<lparr> last_sensor_data :=
                            dict_update (last_sensor_data s) (sensor_row_dict latest) \<rparr>
                   | None \<Rightarrow> s)
                else s)
      in if last_sensor_data s1 = [] then (HTTPError 404 ''No sensor data available'', s1)
         else (Returned (JObj (last_sensor_data s1)), s1))"

section \<open>Command endpoints\<close>

text \<open>The dictionary \<^verbatim>\<open>last_action.update\<close> receives: the row, with the clamped setpoints.\<close>

definition action_update_dict :: "ActionData \<Rightarrow> json \<Rightarrow> json \<Rightarrow> (string \<times> json) list" where
  "action_update_dict action_record l r =
     [(''id'', JInt (ad_id action_record)),
      (''left_motor'', l),
      (''right_motor'', r),
      (''timestamp'', JFloat (Finite (ad_timestamp action_record))),
      (''source'', JStr (ad_source action_record)),
      (''created_at'', JStr (ad_created_at action_record))]"

text \<open>
  The row as the table holds it after \<^verbatim>\<open>commit\<close> and \<^verbatim>\<open>refresh\<close>. \<open>left_motor\<close> and
  \<open>right_motor\<close> are \<open>Integer\<close> columns: SQLite stores a \<^verbatim>\<open>bool\<close> as 0 or 1 and a float
  without a fraction as the integer, and keeps a float with a fraction as it is. The
  clamped setpoints are within the range of its integers.
\<close>

fun sqlite_integer :: "json \<Rightarrow> json" where
  "sqlite_integer (JBool b) = JInt (if b then 1 else 0)"
| "sqlite_integer (JFloat (Finite q)) =
     (if q = of_int \<lfloor>q\<rfloor> then JInt \<lfloor>q\<rfloor> else JFloat (Finite q))"
| "sqlite_integer v = v"

definition action_row :: "env \<Rightarrow> json \<Rightarrow> json \<Rightarrow> string \<Rightarrow> state \<Rightarrow> ActionData" where
  "action_row e l r src s =
     \<lparr> ad_id = int (length (action_table s)) + 1,
       ad_timestamp = time_time e,
       ad_left_motor = sqlite_integer l,
       ad_right_motor = sqlite_integer r,
       ad_source = src,
       ad_created_at = row_created_at e \<rparr>"

text \<open>The notification \<^verbatim>\<open>{"type": "action_update", "action": last_action, "timestamp": ...}\<close>.\<close>

definition action_update_message :: "env \<Rightarrow> state \<Rightarrow> json" where
  "action_update_message e s =
     JObj [(''type'', JStr ''action_update''),
           (''action'', JObj (last_action s)),
           (''timestamp'', JFloat (Finite (time_time2 e)))]"

text \<open>
  \<open>create_action\<close>, the body of \<^verbatim>\<open>POST /actions/\<close>, for a payload that has passed
  validation. \<^verbatim>\<open>action.source or "api"\<close> replaces \<open>None\<close> and the empty string.
\<close>

definition source_or_api :: "string option \<Rightarrow> string" where
  "source_or_api src = (case src of None \<Rightarrow> ''api'' | Some x \<Rightarrow> if x = [] then ''api'' else x)"

definition create_action :: "env \<Rightarrow> ActionPayload \<Rightarrow> state \<Rightarrow> ActionData response \<times> state" where
  "create_action e action s =
     (let l = max (- 100) (min 100 (left_motor action));
          r = max (- 100) (min 100 (right_motor action));
          action_record = action_row e (JInt l) (JInt r) (source_or_api (source action)) s
      in case db_fault e of
           Some x \<Rightarrow> (HTTPError 500 (''Error storing action: '' @ str_exn x), s)
         | None \<Rightarrow>
             (let s1 = s\<lparr> action_table := action_table s @ [action_record] \<rparr>;
                  s2 = s1\<lparr> last_action := dict_update (last_action s1)
                              (action_update_dict action_record (JInt l) (JInt r)) \<rparr>;
                  s3 = send_action_to_robot e
                         (JObj [(''action'', JStr ''motor_control''),
                                (''left_motor'', JInt l),
                                (''right_motor'', JInt r),
                                (''timestamp'', JFloat (Finite (ad_timestamp action_record))),
                                (''source'', JStr (ad_source action_record))]) s2;
                  s4 = broadcast_sensor_data e (action_update_message e s3) s3
              in (Returned action_record, s4)))"

text \<open>
  The request model of the endpoint:
  \<^verbatim>\<open>
  class ActionPayload(BaseModel):
      left_motor: int = Field(..., ge=-100, le=100)
      right_motor: int = Field(..., ge=-100, le=100)
  \<close>
  A body that violates a bound never reaches \<open>create_action\<close>: the framework answers it
  with HTTP 422.
\<close>

definition ActionPayload_valid :: "ActionPayload \<Rightarrow> bool" where
  "ActionPayload_valid action \<longleftrightarrow>
     - 100 \<le> left_motor action \<and> left_motor action \<le> 100 \<and>
     - 100 \<le> right_motor action \<and> right_motor action \<le> 100"

definition post_actions :: "env \<Rightarrow> ActionPayload \<Rightarrow> state \<Rightarrow> ActionData response \<times> state" where
  "post_actions e action s =
     (if ActionPayload_valid action then create_action e action s
      else (HTTPError 422 ''Unprocessable Entity'', s))"

text \<open>\<^verbatim>\<open>GET /actions/latest\<close>, \<open>get_latest_action\<close>; a failing query gives HTTP 500.\<close>

definition action_row_dict :: "ActionData \<Rightarrow> (string \<times> json) list" where
  "action_row_dict r = action_update_dict r (ad_left_motor r) (ad_right_motor r)"

text \<open>
  The row looked up under the cached identifier, when \<^verbatim>\<open>last_action.get("id")\<close> is true:
  \<^verbatim>\<open>query.filter(ActionData.id == last_action["id"]).first()\<close>. The cache only ever holds
  the integer key of a row there.
\<close>

definition cached_row :: "state \<Rightarrow> ActionData option" where
  "cached_row s =
     (case dict_get (last_action s) ''id'' of
        None \<Rightarrow> None
      | Some v \<Rightarrow>
          if truthy v then
            (case v of JInt i \<Rightarrow> find (\<lambda>r. ad_id r = i) (action_table s) | _ \<Rightarrow> None)
          else None)"

definition get_latest_action :: "env \<Rightarrow> state \<Rightarrow> ActionData response \<times> state" where
  "get_latest_action e s =
     (case db_fault e of
        Some x \<Rightarrow> (HTTPError 500 (''Error retrieving latest action: '' @ str_exn x), s)
      | None \<Rightarrow>
          (case cached_row s of
             Some action_record \<Rightarrow> (Returned action_record, s)
           | None \<Rightarrow>
               (case latest_by ad_timestamp (action_table s) of
                  None \<Rightarrow> (HTTPError 404 ''No actions available'', s)
                | Some action_record \<Rightarrow>
                    (Returned action_record,
                     s\<lparr> last_action :=
                          dict_update (last_action s) (action_row_dict action_record) \<rparr>))))"

text \<open>
  \<open>startup_event\<close>: both caches are seeded from the latest rows, where there are any.
  The two queries are taken to succeed.
\<close>

definition startup_event :: "state \<Rightarrow> state" where
  "startup_event s =
     (let s1 = (case latest_by sd_timestamp (sensor_table s) of
                  Some latest_sensor \<Rightarrow>
                    s\<lparr> last_sensor_data :=
                         dict_update (last_sensor_data s) (sensor_row_dict latest_sensor) \<rparr>
                | None \<Rightarrow> s)
      in case latest_by ad_timestamp (action_table s1) of
           Some latest_action \<Rightarrow>
             s1\<lparr> last_action := dict_update (last_action s1) (action_row_dict latest_action) \<rparr>
         | None \<Rightarrow> s1)"

section \<open>The dashboard socket\<close>

text \<open>
  \<open>dashboard_websocket\<close> up to its receive loop: the connection is registered, and when
  the telemetry cache is not empty the initial data are sent; a failure of that send is
  ignored (\<^verbatim>\<open>except: pass\<close>). The loop then only waits for the disconnect, which
  unregisters the connection.
\<close>

definition initial_data :: "state \<Rightarrow> json" where
  "initial_data s =
     JObj [(''type'', JStr ''initial_data''),
           (''sensors'', JObj (last_sensor_data s)),
           (''last_action'', JObj (last_action s))]"

definition dashboard_websocket_open :: "env \<Rightarrow> websocket \<Rightarrow> state \<Rightarrow> state" where
  "dashboard_websocket_open e ws s =
     (let s1 = connect_dashboard ws s
      in if last_sensor_data s1 \<noteq> [] then snd (send e ws (initial_data s1) s1) else s1)"

definition dashboard_websocket_closed :: "websocket \<Rightarrow> state \<Rightarrow> state" where
  "dashboard_websocket_closed ws s = disconnect_dashboard ws s"

section \<open>The robot socket\<close>

definition error_payload :: "string \<Rightarrow> json" where
  "error_payload m = JObj [(''error'', JStr m)]"

text \<open>
  The inner \<^verbatim>\<open>try\<close> of \<open>robot_websocket\<close> (the storage session): the row is stored, the
  cache updated, the acknowledgment sent on the same connection and the dashboards
  notified. Its \<^verbatim>\<open>except Exception\<close> clause covers the whole block, the send of the
  acknowledgment included: it rolls back and sends a \<open>Database error\<close> payload. An
  exception raised by that send leaves the block; the result is that exception.
\<close>

definition database_error :: "env \<Rightarrow> websocket \<Rightarrow> exn \<Rightarrow> state \<Rightarrow> exn option \<times> state" where
  "database_error e ws x s = send e ws (error_payload (''Database error: '' @ str_exn x)) s"

definition acknowledgment :: "json \<Rightarrow> json \<Rightarrow> ActionData \<Rightarrow> json" where
  "acknowledgment l r action_record =
     JObj [(''status'', JStr ''action_received''),
           (''left_motor'', l),
           (''right_motor'', r),
           (''timestamp'', JFloat (Finite (ad_timestamp action_record))),
           (''id'', JInt (ad_id action_record))]"

definition robot_store_action ::
  "env \<Rightarrow> websocket \<Rightarrow> json \<Rightarrow> json \<Rightarrow> state \<Rightarrow> exn option \<times> state" where
  "robot_store_action e ws l r s =
     (let action_record = action_row e l r ''websocket'' s
      in case db_fault e of
           Some x \<Rightarrow> database_error e ws x s
         | None \<Rightarrow>
             (let s1 = s\<lparr> action_table := action_table s @ [action_record] \<rparr>;
                  s2 = s1\<lparr> last_action := dict_update (last_action s1)
                              (action_update_dict action_record l r) \<rparr>
              in case send e ws (acknowledgment l r action_record) s2 of
                   (Some x, s3) \<Rightarrow> database_error e ws x s3
                 | (None, s3) \<Rightarrow>
                     (None, broadcast_sensor_data e (action_update_message e s3) s3)))"

text \<open>
  The body of the outer \<^verbatim>\<open>try\<close>, for the value \<^verbatim>\<open>json.loads(data)\<close> returned. The result
  is the exception that leaves the body, if any. The test
  \<^verbatim>\<open>"left_motor" not in action_data or "right_motor" not in action_data\<close> evaluates its
  second operand only when the first is false.
\<close>

definition robot_try_body :: "env \<Rightarrow> websocket \<Rightarrow> json \<Rightarrow> state \<Rightarrow> exn option \<times> state" where
  "robot_try_body e ws action_data s =
     (case py_in ''left_motor'' action_data of
        Inl x \<Rightarrow> (Some x, s)
      | Inr has_left \<Rightarrow>
          (case (if has_left then py_in ''right_motor'' action_data else Inr False) of
             Inl x \<Rightarrow> (Some x, s)
           | Inr has_both \<Rightarrow>
               if \<not> has_both then send e ws (error_payload ''Invalid action format'') s
               else
                 (case py_getitem action_data ''left_motor'' of
                    Inl x \<Rightarrow> (Some x, s)
                  | Inr lv \<Rightarrow>
                      (case clamp_motor lv of
                         Inl x \<Rightarrow> (Some x, s)
                       | Inr l \<Rightarrow>
                           (case py_getitem action_data ''right_motor'' of
                              Inl x \<Rightarrow> (Some x, s)
                            | Inr rv \<Rightarrow>
                                (case clamp_motor rv of
                                   Inl x \<Rightarrow> (Some x, s)
                                 | Inr r \<Rightarrow> robot_store_action e ws l r s))))))"

text \<open>
  One turn of the receive loop, for the text received: \<open>None\<close> when \<^verbatim>\<open>json.loads\<close> raises
  \<open>JSONDecodeError\<close>, otherwise the value it returns. \<^verbatim>\<open>json.loads\<close> is Python's: besides
  JSON it accepts the literals \<^verbatim>\<open>NaN\<close>, \<^verbatim>\<open>Infinity\<close> and \<^verbatim>\<open>-Infinity\<close>, which are not JSON,
  and returns the floats they name; no JSON text gives the value \<open>NaN\<close>. The two \<^verbatim>\<open>except\<close> clauses of the
  outer \<^verbatim>\<open>try\<close> each send an error payload; an exception raised by that send leaves the
  loop. The result is the exception that leaves the loop, if any.
\<close>

definition robot_message :: "env \<Rightarrow> websocket \<Rightarrow> json option \<Rightarrow> state \<Rightarrow> exn option \<times> state" where
  "robot_message e ws loaded s =
     (case loaded of
        None \<Rightarrow> send e ws (error_payload ''Invalid JSON'') s
      | Some action_data \<Rightarrow>
          (case robot_try_body e ws action_data s of
             (None, s1) \<Rightarrow> (None, s1)
           | (Some x, s1) \<Rightarrow>
               if exn_cls x = JSONDecodeError then send e ws (error_payload ''Invalid JSON'') s1
               else send e ws (error_payload (str_exn x)) s1))"

text \<open>
  The receive loop on the texts a connection delivers, each with the surroundings of its
  turn. After the last text \<^verbatim>\<open>receive_text\<close> raises \<open>WebSocketDisconnect\<close>. The outermost
  handler unregisters the connection on \<open>WebSocketDisconnect\<close> and on nothing else: any
  other exception ends the handler with the connection still in the pool.
\<close>

fun robot_loop :: "websocket \<Rightarrow> (env \<times> json option) list \<Rightarrow> state \<Rightarrow> state" where
  "robot_loop ws [] s = disconnect_robot ws s"
| "robot_loop ws ((e, loaded) # rest) s =
     (case robot_message e ws loaded s of
        (None, s1) \<Rightarrow> robot_loop ws rest s1
      | (Some x, s1) \<Rightarrow> if exn_cls x = WebSocketDisconnect then disconnect_robot ws s1 else s1)"

definition robot_websocket :: "websocket \<Rightarrow> (env \<times> json option) list \<Rightarrow> state \<Rightarrow> state" where
  "robot_websocket ws texts s = robot_loop ws texts (connect_robot ws s)"

section \<open>Sequences of requests and notions used in the results\<close>

text \<open>A sequence of \<^verbatim>\<open>POST /sensors/\<close> requests, each with the surroundings of its run.\<close>

fun post_sensors :: "(env \<times> SensorPayload) list \<Rightarrow> state \<Rightarrow> state" where
  "post_sensors [] s = s"
| "post_sensors ((e, payload) # rest) s = post_sensors rest (snd (store_sensor_data e payload s))"

text \<open>
  The snapshot \<open>store_sensor_data\<close> writes for a payload stored under the row identifier
  \<open>i\<close>, and the keys of the telemetry cache.
\<close>

definition telemetry_snapshot :: "env \<Rightarrow> SensorPayload \<Rightarrow> int \<Rightarrow> dict" where
  "telemetry_snapshot e payload i =
     [(''sample_id'', JInt (sample_id payload)),
      (''timestamp'', JFloat (Finite (timestamp payload))),
      (''ir_sensor'', ir_sensor_dict (ir_sensor payload)),
      (''robot_info'', robot_info_dict (robot_info payload)),
      (''db_id'', JInt i),
      (''created_at'', JStr (utcnow_isoformat e))]"

definition telemetry_keys :: "string list" where
  "telemetry_keys =
     [''sample_id'', ''timestamp'', ''ir_sensor'', ''robot_info'', ''db_id'', ''created_at'']"

text \<open>
  The values Python compares with an integer (\<^verbatim>\<open>int\<close>, \<^verbatim>\<open>bool\<close>, \<^verbatim>\<open>float\<close>); what it means for
  a cached setpoint to be an integer within the range (\<^verbatim>\<open>isinstance(v, int)\<close> holds of a
  \<^verbatim>\<open>bool\<close> too), and to be a number within the range.
\<close>

fun numeric :: "json \<Rightarrow> bool" where
  "numeric (JInt n) = True"
| "numeric (JBool b) = True"
| "numeric (JFloat f) = True"
| "numeric v = False"

fun integer_setpoint :: "json \<Rightarrow> bool" where
  "integer_setpoint (JInt n) = (- 100 \<le> n \<and> n \<le> 100)"
| "integer_setpoint (JBool b) = True"
| "integer_setpoint v = False"

fun setpoint_in_range :: "json \<Rightarrow> bool" where
  "setpoint_in_range (JInt n) = (- 100 \<le> n \<and> n \<le> 100)"
| "setpoint_in_range (JBool b) = True"
| "setpoint_in_range (JFloat (Finite q)) = (- 100 \<le> q \<and> q \<le> 100)"
| "setpoint_in_range v = False"

text \<open>
  The operations that touch the command cache, and a run of them from the start of a
  process. A process starts from the module-level values over the tables it finds; the
  tables are written by this program only, so the first process finds them empty and a
  restart finds what the runs before it left. A restart empties the pools and resets the
  caches; the record of what was sent stays.
\<close>

datatype operation =
    Restart
  | PostActions env ActionPayload
  | RobotMessage env websocket "json option"
  | GetLatestAction env
  | PostSensors env SensorPayload
  | GetLatestSensors
  | DashboardOpen env websocket
  | DashboardClosed websocket
  | RobotOpen websocket
  | RobotClosed websocket

fun apply_operation :: "operation \<Rightarrow> state \<Rightarrow> state" where
  "apply_operation Restart s =
     startup_event ((initial_state (sensor_table s) (action_table s))\<lparr> wire := wire s \<rparr>)"
| "apply_operation (PostActions e action) s = snd (post_actions e action s)"
| "apply_operation (RobotMessage e ws loaded) s = snd (robot_message e ws loaded s)"
| "apply_operation (GetLatestAction e) s = snd (get_latest_action e s)"
| "apply_operation (PostSensors e payload) s = snd (store_sensor_data e payload s)"
| "apply_operation GetLatestSensors s = snd (get_latest_sensor_data s)"
| "apply_operation (DashboardOpen e ws) s = dashboard_websocket_open e ws s"
| "apply_operation (DashboardClosed ws) s = dashboard_websocket_closed ws s"
| "apply_operation (RobotOpen ws) s = connect_robot ws s"
| "apply_operation (RobotClosed ws) s = disconnect_robot ws s"

fun run :: "operation list \<Rightarrow> state \<Rightarrow> state" where
  "run [] s = s"
| "run (opn # ops) s = run ops (apply_operation opn s)"

definition cached_setpoints_ok :: "(json \<Rightarrow> bool) \<Rightarrow> dict \<Rightarrow> bool" where
  "cached_setpoints_ok P d \<longleftrightarrow>
     (case (dict_get d ''left_motor'', dict_get d ''right_motor'') of
        (Some l, Some r) \<Rightarrow> P l \<and> P r
      | _ \<Rightarrow> False)"

text \<open>
  Two properties of the state that every operation keeps. The telemetry cache is empty
  or holds exactly the six telemetry keys, and is not empty once a sample is stored.
  The command cache holds the module-level defaults as long as no command is stored, and
  its setpoints and those of every stored row are numbers within the range.
\<close>

definition telemetry_inv :: "state \<Rightarrow> bool" where
  "telemetry_inv s \<longleftrightarrow>
     (last_sensor_data s = [] \<or> map fst (last_sensor_data s) = telemetry_keys) \<and>
     (sensor_table s \<noteq> [] \<longrightarrow> last_sensor_data s \<noteq> [])"

definition command_inv :: "state \<Rightarrow> bool" where
  "command_inv s \<longleftrightarrow>
     (action_table s = [] \<longrightarrow> last_action s = initial_last_action) \<and>
     cached_setpoints_ok setpoint_in_range (last_action s) \<and>
     (\<forall>row \<in> set (action_table s).
        setpoint_in_range (ad_left_motor row) \<and> setpoint_in_range (ad_right_motor row))"

section \<open>Concrete surroundings and states\<close>

text \<open>
  Inputs on which the results below are run: a transport on which every send completes,
  one on which the sends to a single connection raise, surroundings with a given storage
  fault and transport, and the state of a fresh process (empty tables) serving given
  pools.
\<close>

definition all_alive :: transport where
  "all_alive c = None"

definition dead_only :: "websocket \<Rightarrow> transport" where
  "dead_only d c = (if c = d then Some (Exn RuntimeError ''closed'') else None)"

definition example_env :: "exn option \<Rightarrow> transport \<Rightarrow> env" where
  "example_env fault tx =
     \<lparr> time_time = 1700000000, time_time2 = 1700000001,
       row_created_at = ''2023-11-14T22:13:20'', utcnow_isoformat = ''2023-11-14T22:13:21'',
       db_fault = fault, send_json = tx \<rparr>"

definition example_payload :: "int \<Rightarrow> rat \<Rightarrow> SensorPayload" where
  "example_payload n t =
     \<lparr> sample_id = n, timestamp = t,
       ir_sensor = \<lparr> proximity = Some 50, remote_buttons = None,
                     beacon_distance = Some 30, beacon_heading = None \<rparr>,
       robot_info = \<lparr> platform = ''EV3'', python_version = ''ev3dev2'' \<rparr> \<rparr>"

definition motor_message :: "json \<Rightarrow> json \<Rightarrow> json" where
  "motor_message l r = JObj [(''left_motor'', l), (''right_motor'', r)]"

definition serving :: "websocket list \<Rightarrow> websocket list \<Rightarrow> state" where
  "serving dashboards robots =
     (initial_state [] [])\<lparr> active_dashboard_connections := dashboards,
                             active_robot_connections := robots \<rparr>"

section \<open>The broadcast loop\<close>

declare broadcast_from.simps [simp del]

lemma broadcast_from_end:
  "length pool \<le> i \<Longrightarrow> broadcast_from tx data i pool w = (pool, w)"
  by (subst broadcast_from.simps) simp

lemma broadcast_from_ok:
  "i < length pool \<Longrightarrow> tx (pool ! i) = None \<Longrightarrow>
   broadcast_from tx data i pool w =
     broadcast_from tx data (Suc i) pool (w @ [(pool ! i, data, None)])"
  by (subst broadcast_from.simps) (simp add: Let_def)

lemma broadcast_from_fail:
  "i < length pool \<Longrightarrow> tx (pool ! i) = Some x \<Longrightarrow>
   broadcast_from tx data i pool w =
     broadcast_from tx data (Suc i) (disconnect (pool ! i) pool) (w @ [(pool ! i, data, Some x)])"
  by (subst broadcast_from.simps) (simp add: Let_def)

text \<open>A stretch \<open>ys\<close> of the pool on which every send completes is walked through.\<close>

lemma broadcast_from_run:
  "\<forall>c \<in> set ys. tx c = None \<Longrightarrow>
   broadcast_from tx data (length xs) (xs @ ys @ zs) w =
     broadcast_from tx data (length xs + length ys) (xs @ ys @ zs)
       (w @ map (\<lambda>c. (c, data, None)) ys)"
proof (induction ys arbitrary: xs w)
  case Nil
  then show ?case by simp
next
  case (Cons y ys)
  have "broadcast_from tx data (length xs) (xs @ (y # ys) @ zs) w =
        broadcast_from tx data (Suc (length xs)) (xs @ (y # ys) @ zs) (w @ [(y, data, None)])"
    using Cons.prems by (simp add: broadcast_from_ok)
  also have "\<dots> = broadcast_from tx data (length (xs @ [y])) ((xs @ [y]) @ ys @ zs)
                      (w @ [(y, data, None)])"
    by simp
  also have "\<dots> = broadcast_from tx data (length (xs @ [y]) + length ys) ((xs @ [y]) @ ys @ zs)
                      ((w @ [(y, data, None)]) @ map (\<lambda>c. (c, data, None)) ys)"
    using Cons.prems by (intro Cons.IH) simp
  finally show ?case by simp
qed

lemma broadcast_all_ok:
  assumes "\<forall>c \<in> set pool. tx c = None"
  shows "broadcast tx data pool w = (pool, w @ map (\<lambda>c. (c, data, None)) pool)"
  using broadcast_from_run [of pool tx data "[]" "[]" w] assms
  by (simp add: broadcast_def broadcast_from_end)

lemma disconnect_middle:
  "d \<notin> set xs \<Longrightarrow> disconnect d (xs @ d # ys) = xs @ ys"
  by (simp add: disconnect_def remove1_append)

text \<open>
  One dead connection \<open>d\<close> in a pool of otherwise live ones: \<open>d\<close> is removed, and the
  connection that stood right after \<open>d\<close> is never sent to, because the removal moved it
  to the index the iterator has just left.
\<close>

lemma broadcast_one_dead:
  assumes dead: "tx d = Some x"
    and xs: "\<forall>c \<in> set xs. tx c = None"
    and ys: "\<forall>c \<in> set ys. tx c = None"
  shows "broadcast tx data (xs @ d # ys) w =
           (xs @ ys,
            w @ map (\<lambda>c. (c, data, None)) xs @ [(d, data, Some x)]
              @ map (\<lambda>c. (c, data, None)) (tl ys))"
proof -
  let ?ok = "\<lambda>c. (c, data, None)"
  have d: "d \<notin> set xs" using dead xs by auto
  have "broadcast tx data (xs @ d # ys) w =
        broadcast_from tx data (length xs) (xs @ d # ys) (w @ map ?ok xs)"
    using broadcast_from_run [of xs tx data "[]" "d # ys" w] xs by (simp add: broadcast_def)
  also have "\<dots> = broadcast_from tx data (Suc (length xs)) (xs @ ys)
                      (w @ map ?ok xs @ [(d, data, Some x)])"
    using dead d by (simp add: broadcast_from_fail disconnect_middle)
  also have "\<dots> = (xs @ ys, w @ map ?ok xs @ [(d, data, Some x)] @ map ?ok (tl ys))"
  proof (cases ys)
    case Nil
    then show ?thesis by (simp add: broadcast_from_end)
  next
    case (Cons y ys')
    have "broadcast_from tx data (length (xs @ [y])) ((xs @ [y]) @ ys' @ [])
            (w @ map ?ok xs @ [(d, data, Some x)]) =
          broadcast_from tx data (length (xs @ [y]) + length ys') ((xs @ [y]) @ ys' @ [])
            ((w @ map ?ok xs @ [(d, data, Some x)]) @ map ?ok ys')"
      using ys Cons by (intro broadcast_from_run) simp
    then show ?thesis using Cons by (simp add: broadcast_from_end)
  qed
  finally show ?thesis .
qed

lemma received_append: "received (w @ w') c = received w c @ received w' c"
  by (simp add: received_def)

lemma received_Cons:
  "received ((c', m, r) # w) c = (if c' = c \<and> r = None then m # received w c else received w c)"
  by (simp add: received_def)

lemma received_Nil: "received [] c = []"
  by (simp add: received_def)

lemma received_delivered:
  "received (map (\<lambda>c. (c, data, None)) zs) c = replicate (count_list zs c) data"
  by (induction zs) (auto simp: received_def)

lemma received_delivered_distinct:
  "distinct zs \<Longrightarrow>
   received (map (\<lambda>c. (c, data, None)) zs) c = (if c \<in> set zs then [data] else [])"
  by (induction zs) (auto simp: received_def)

section \<open>Dictionaries, clamping and the robot handler\<close>

lemma clamp_motor_int: "clamp_motor (JInt n) = Inr (JInt (max (- 100) (min 100 n)))"
  by (simp add: clamp_motor_def py_min_def py_max_def max_def min_def)

lemma clamp_motor_not_numeric: "\<not> numeric v \<Longrightarrow> clamp_motor v = Inl (not_supported ''<'' v)"
  by (cases v) (simp_all add: clamp_motor_def py_min_def)

lemma clamp_motor_numeric: "numeric v \<Longrightarrow> \<exists>c. clamp_motor v = Inr c"
proof (cases v)
  case (JFloat f)
  then show ?thesis
    by (cases f) (simp_all add: clamp_motor_def py_min_def py_max_def)
qed (simp_all add: clamp_motor_def py_min_def py_max_def)

lemma has_key: "map_of d k = Some v \<Longrightarrow> k \<in> fst ` set d"
  by (metis map_of_SomeD fst_conv image_eqI)

lemma robot_try_body_object:
  assumes "map_of d ''left_motor'' = Some lv" and "map_of d ''right_motor'' = Some rv"
  shows "robot_try_body e ws (JObj d) s =
           (case clamp_motor lv of
              Inl x \<Rightarrow> (Some x, s)
            | Inr l \<Rightarrow>
                (case clamp_motor rv of
                   Inl x \<Rightarrow> (Some x, s)
                 | Inr r \<Rightarrow> robot_store_action e ws l r s))"
  using assms has_key [OF assms(1)] has_key [OF assms(2)]
  by (simp add: robot_try_body_def split: sum.splits)

lemma robot_store_action_fault:
  "db_fault e = Some x \<Longrightarrow>
   robot_store_action e ws l r s =
     (send_json e ws,
      s\<lparr> wire := wire s @ [(ws, error_payload (''Database error: '' @ str_exn x), send_json e ws)] \<rparr>)"
  by (simp add: robot_store_action_def database_error_def send_def)

lemma map_of_dict_update: "map_of (dict_update d kvs) = map_of d ++ map_of (rev kvs)"
proof (induction kvs arbitrary: d)
  case Nil
  then show ?case by simp
next
  case (Cons kv kvs)
  obtain k v where kv: "kv = (k, v)" by (cases kv)
  have "map_of (dict_update d (kv # kvs)) = map_of (AList.update k v d) ++ map_of (rev kvs)"
    using Cons.IH [of "AList.update k v d"] kv by simp
  also have "\<dots> = (map_of d)(k \<mapsto> v) ++ map_of (rev kvs)"
    by (simp only: AList.update_conv')
  also have "\<dots> = map_of d ++ ([k \<mapsto> v] ++ map_of (rev kvs))"
    by (auto simp: fun_eq_iff map_add_def split: option.splits)
  finally show ?case using kv by simp
qed

lemma dict_get_action_update:
  "dict_get (dict_update d (action_update_dict row l r)) ''left_motor'' = Some l"
  "dict_get (dict_update d (action_update_dict row l r)) ''right_motor'' = Some r"
  by (simp_all add: dict_get_def action_update_dict_def AList.update_conv')


lemma broadcast_sensor_data_fields [simp]:
  "last_action (broadcast_sensor_data e m s) = last_action s"
  "last_sensor_data (broadcast_sensor_data e m s) = last_sensor_data s"
  "action_table (broadcast_sensor_data e m s) = action_table s"
  "sensor_table (broadcast_sensor_data e m s) = sensor_table s"
  "active_robot_connections (broadcast_sensor_data e m s) = active_robot_connections s"
  by (simp_all add: broadcast_sensor_data_def split: prod.splits)

lemma send_action_to_robot_fields [simp]:
  "last_action (send_action_to_robot e m s) = last_action s"
  "last_sensor_data (send_action_to_robot e m s) = last_sensor_data s"
  "action_table (send_action_to_robot e m s) = action_table s"
  "sensor_table (send_action_to_robot e m s) = sensor_table s"
  "active_dashboard_connections (send_action_to_robot e m s) = active_dashboard_connections s"
  by (simp_all add: send_action_to_robot_def split: prod.splits)

lemma send_fields [simp]:
  "last_action (snd (send e ws m s)) = last_action s"
  "last_sensor_data (snd (send e ws m s)) = last_sensor_data s"
  "action_table (snd (send e ws m s)) = action_table s"
  "sensor_table (snd (send e ws m s)) = sensor_table s"
  "active_dashboard_connections (snd (send e ws m s)) = active_dashboard_connections s"
  "active_robot_connections (snd (send e ws m s)) = active_robot_connections s"
  "fst (send e ws m s) = send_json e ws"
  by (simp_all add: send_def)

text \<open>With the storage working, the row is appended and the cache overwritten, whatever the sends do.\<close>

lemma robot_store_action_stored:
  assumes "db_fault e = None"
  shows "last_action (snd (robot_store_action e ws l r s)) =
           dict_update (last_action s) (action_update_dict (action_row e l r ''websocket'' s) l r)"
    and "action_table (snd (robot_store_action e ws l r s)) =
           action_table s @ [action_row e l r ''websocket'' s]"
  using assms
  by (simp_all add: robot_store_action_def database_error_def send_def Let_def
        split: option.splits)

lemma robot_message_cache:
  "last_action (snd (robot_message e ws loaded s)) =
     last_action (case loaded of None \<Rightarrow> s | Some a \<Rightarrow> snd (robot_try_body e ws a s))"
  "action_table (snd (robot_message e ws loaded s)) =
     action_table (case loaded of None \<Rightarrow> s | Some a \<Rightarrow> snd (robot_try_body e ws a s))"
  by (simp_all add: robot_message_def send_def split: option.splits prod.splits)

lemma robot_message_fault:
  assumes l: "map_of d ''left_motor'' = Some lv" and r: "map_of d ''right_motor'' = Some rv"
    and nl: "numeric lv" and nr: "numeric rv" and fault: "db_fault e = Some x"
  shows "robot_message e ws (Some (JObj d)) s =
           (send_json e ws,
            s\<lparr> wire := wire s @
                 (ws, error_payload (''Database error: '' @ str_exn x), send_json e ws) #
                 (case send_json e ws of
                    None \<Rightarrow> []
                  | Some y \<Rightarrow>
                      [(ws, error_payload (if exn_cls y = JSONDecodeError then ''Invalid JSON''
                                           else str_exn y), Some y)]) \<rparr>)"
proof -
  obtain cl cr where c: "clamp_motor lv = Inr cl" "clamp_motor rv = Inr cr"
    using clamp_motor_numeric nl nr by blast
  have "robot_try_body e ws (JObj d) s = robot_store_action e ws cl cr s"
    using robot_try_body_object [OF l r] c by simp
  then show ?thesis
    using fault
    by (cases "send_json e ws") (simp_all add: robot_message_def robot_store_action_fault send_def)
qed

section \<open>What the handlers do to the caches and the tables\<close>

lemma latest_by_in: "latest_by t rs = Some r \<Longrightarrow> r \<in> set rs"
  by (induction rs arbitrary: r) (auto split: option.splits if_splits)

lemma latest_by_nonempty: "rs \<noteq> [] \<Longrightarrow> \<exists>r. latest_by t rs = Some r"
  by (cases rs) (auto split: option.splits)

lemma clamp_motor_in_range: "clamp_motor v = Inr c \<Longrightarrow> setpoint_in_range c"
proof (cases v)
  case (JFloat f)
  assume "clamp_motor v = Inr c"
  with JFloat show ?thesis
    by (cases f) (auto simp: clamp_motor_def py_min_def py_max_def split: if_splits)
qed (auto simp: clamp_motor_def py_min_def py_max_def split: if_splits)

text \<open>What each handler does to the telemetry cache and table.\<close>

lemma store_sensor_data_telemetry:
  "db_fault e = None \<Longrightarrow>
   last_sensor_data (snd (store_sensor_data e p s)) =
     dict_update (last_sensor_data s)
       (telemetry_snapshot e p (int (length (sensor_table s)) + 1))"
  "db_fault e = None \<Longrightarrow>
   sensor_table (snd (store_sensor_data e p s)) = sensor_table s @ [sensor_row e p s]"
  "db_fault e = Some x \<Longrightarrow> snd (store_sensor_data e p s) = s"
  "last_action (snd (store_sensor_data e p s)) = last_action s"
  "action_table (snd (store_sensor_data e p s)) = action_table s"
  by (simp_all add: store_sensor_data_def Let_def telemetry_snapshot_def sensor_row_def
        split: option.splits)

lemma robot_try_body_telemetry:
  "last_sensor_data (snd (robot_try_body e ws a s)) = last_sensor_data s"
  "sensor_table (snd (robot_try_body e ws a s)) = sensor_table s"
  by (simp_all add: robot_try_body_def robot_store_action_def database_error_def send_def
        Let_def split: sum.splits option.splits prod.splits)

lemma robot_message_telemetry:
  "last_sensor_data (snd (robot_message e ws loaded s)) = last_sensor_data s"
  "sensor_table (snd (robot_message e ws loaded s)) = sensor_table s"
  by (simp_all add: robot_message_def send_def  split: option.splits prod.splits)
     (metis robot_try_body_telemetry snd_conv)+

lemma post_actions_telemetry:
  "last_sensor_data (snd (post_actions e a s)) = last_sensor_data s"
  "sensor_table (snd (post_actions e a s)) = sensor_table s"
  by (simp_all add: post_actions_def create_action_def Let_def split: option.splits)

lemma get_latest_action_telemetry:
  "last_sensor_data (snd (get_latest_action e s)) = last_sensor_data s"
  "sensor_table (snd (get_latest_action e s)) = sensor_table s"
  by (simp_all add: get_latest_action_def split: option.splits)

lemma dashboard_telemetry:
  "last_sensor_data (dashboard_websocket_open e ws s) = last_sensor_data s"
  "sensor_table (dashboard_websocket_open e ws s) = sensor_table s"
  "last_action (dashboard_websocket_open e ws s) = last_action s"
  "action_table (dashboard_websocket_open e ws s) = action_table s"
  "last_sensor_data (dashboard_websocket_closed ws s) = last_sensor_data s"
  "sensor_table (dashboard_websocket_closed ws s) = sensor_table s"
  "last_action (dashboard_websocket_closed ws s) = last_action s"
  "action_table (dashboard_websocket_closed ws s) = action_table s"
  by (simp_all add: dashboard_websocket_open_def dashboard_websocket_closed_def
        connect_dashboard_def disconnect_dashboard_def send_def Let_def)

lemma robot_pool_fields:
  "last_sensor_data (connect_robot ws s) = last_sensor_data s"
  "sensor_table (connect_robot ws s) = sensor_table s"
  "last_action (connect_robot ws s) = last_action s"
  "action_table (connect_robot ws s) = action_table s"
  "last_sensor_data (disconnect_robot ws s) = last_sensor_data s"
  "sensor_table (disconnect_robot ws s) = sensor_table s"
  "last_action (disconnect_robot ws s) = last_action s"
  "action_table (disconnect_robot ws s) = action_table s"
  by (simp_all add: connect_robot_def disconnect_robot_def)

lemma get_latest_sensor_data_fields:
  "sensor_table (snd (get_latest_sensor_data s)) = sensor_table s"
  "last_action (snd (get_latest_sensor_data s)) = last_action s"
  "action_table (snd (get_latest_sensor_data s)) = action_table s"
  by (simp_all add: get_latest_sensor_data_def Let_def split: option.splits)

lemma startup_event_tables:
  "sensor_table (startup_event s) = sensor_table s"
  "action_table (startup_event s) = action_table s"
  by (simp_all add: startup_event_def Let_def split: option.splits)

lemma six_keys:
  assumes "map fst kvs = telemetry_keys"
  obtains v1 v2 v3 v4 v5 v6 where
    "kvs = [(''sample_id'', v1), (''timestamp'', v2), (''ir_sensor'', v3),
            (''robot_info'', v4), (''db_id'', v5), (''created_at'', v6)]"
proof -
  from assms obtain p1 p2 p3 p4 p5 p6 where kvs: "kvs = [p1, p2, p3, p4, p5, p6]"
    and k: "fst p1 = ''sample_id''" "fst p2 = ''timestamp''" "fst p3 = ''ir_sensor''"
           "fst p4 = ''robot_info''" "fst p5 = ''db_id''" "fst p6 = ''created_at''"
    unfolding telemetry_keys_def by (auto simp: map_eq_Cons_conv)
  have "kvs = [(''sample_id'', snd p1), (''timestamp'', snd p2), (''ir_sensor'', snd p3),
               (''robot_info'', snd p4), (''db_id'', snd p5), (''created_at'', snd p6)]"
    unfolding kvs using k by (metis prod.collapse)
  then show thesis by (rule that)
qed

lemma telemetry_overwrite:
  assumes new: "map fst kvs = telemetry_keys"
    and old: "d = [] \<or> map fst d = telemetry_keys"
  shows "dict_update d kvs = kvs"
proof -
  obtain v1 v2 v3 v4 v5 v6 where kvs:
    "kvs = [(''sample_id'', v1), (''timestamp'', v2), (''ir_sensor'', v3),
            (''robot_info'', v4), (''db_id'', v5), (''created_at'', v6)]"
    using new by (rule six_keys)
  from old show ?thesis
  proof
    assume "d = []"
    then show ?thesis by (simp add: kvs)
  next
    assume "map fst d = telemetry_keys"
    then obtain u1 u2 u3 u4 u5 u6 where
      "d = [(''sample_id'', u1), (''timestamp'', u2), (''ir_sensor'', u3),
            (''robot_info'', u4), (''db_id'', u5), (''created_at'', u6)]"
      by (rule six_keys)
    then show ?thesis by (simp add: kvs)
  qed
qed

lemma telemetry_snapshot_keys: "map fst (telemetry_snapshot e p i) = telemetry_keys"
  by (simp add: telemetry_snapshot_def telemetry_keys_def)

lemma sensor_row_dict_keys: "map fst (sensor_row_dict r) = telemetry_keys"
  by (simp add: sensor_row_dict_def telemetry_keys_def)

lemma latest_by_None: "latest_by t rs = None \<longleftrightarrow> rs = []"
  by (cases rs) (auto split: option.splits)

lemma telemetry_inv_initial: "telemetry_inv (initial_state [] actions)"
  by (simp add: telemetry_inv_def initial_state_def)

lemma dict_update_not_empty: "kvs \<noteq> [] \<Longrightarrow> dict_update d kvs \<noteq> []"
proof (induction kvs arbitrary: d)
  case Nil
  then show ?case by simp
next
  case (Cons kv kvs)
  obtain k v where kv: "kv = (k, v)" by (cases kv)
  have "AList.update k v d \<noteq> []" by (cases d) auto
  then show ?case
    using Cons.IH [of "AList.update k v d"] kv by (cases kvs) auto
qed

lemma telemetry_inv_store: "telemetry_inv s \<Longrightarrow> telemetry_inv (snd (store_sensor_data e p s))"
proof (cases "db_fault e")
  case None
  assume inv: "telemetry_inv s"
  then have "dict_update (last_sensor_data s)
               (telemetry_snapshot e p (int (length (sensor_table s)) + 1)) =
             telemetry_snapshot e p (int (length (sensor_table s)) + 1)"
    by (intro telemetry_overwrite telemetry_snapshot_keys) (simp add: telemetry_inv_def)
  then show ?thesis
    using None
    by (simp add: telemetry_inv_def store_sensor_data_telemetry telemetry_snapshot_keys)
       (simp add: telemetry_snapshot_def)
next
  case (Some x)
  assume "telemetry_inv s"
  then show ?thesis using Some by (simp add: store_sensor_data_telemetry)
qed

lemma seeded_telemetry:
  "dict_update [] (sensor_row_dict r) = sensor_row_dict r"
  by (intro telemetry_overwrite sensor_row_dict_keys) simp

lemma telemetry_inv_get_latest:
  "telemetry_inv s \<Longrightarrow> telemetry_inv (snd (get_latest_sensor_data s))"
  by (auto simp: telemetry_inv_def get_latest_sensor_data_def Let_def seeded_telemetry
        sensor_row_dict_keys latest_by_None split: option.splits)

lemma telemetry_inv_restart:
  "telemetry_inv
     (startup_event ((initial_state (sensor_table s) (action_table s))\<lparr> wire := w \<rparr>))"
  by (auto simp: telemetry_inv_def startup_event_def initial_state_def Let_def seeded_telemetry
        sensor_row_dict_keys latest_by_None split: option.splits)
     (simp_all add: sensor_row_dict_def)

lemma telemetry_inv_same:
  "last_sensor_data s' = last_sensor_data s \<Longrightarrow> sensor_table s' = sensor_table s \<Longrightarrow>
   telemetry_inv s \<Longrightarrow> telemetry_inv s'"
  by (simp add: telemetry_inv_def)

lemma telemetry_inv_step: "telemetry_inv s \<Longrightarrow> telemetry_inv (apply_operation opn s)"
proof (cases opn)
  case Restart
  then show ?thesis by (simp add: telemetry_inv_restart)
next
  case (PostSensors e p)
  assume "telemetry_inv s"
  then show ?thesis using PostSensors by (simp add: telemetry_inv_store)
next
  case GetLatestSensors
  assume "telemetry_inv s"
  then show ?thesis using GetLatestSensors by (simp add: telemetry_inv_get_latest)
qed (auto intro!: telemetry_inv_same [of _ s]
       simp: post_actions_telemetry robot_message_telemetry get_latest_action_telemetry
             dashboard_telemetry robot_pool_fields)

lemma telemetry_inv_run: "telemetry_inv s \<Longrightarrow> telemetry_inv (run ops s)"
  by (induction ops arbitrary: s) (auto simp: telemetry_inv_step)

lemma cached_setpoints_updated:
  "cached_setpoints_ok P (dict_update d (action_update_dict row l r)) \<longleftrightarrow> P l \<and> P r"
  by (simp add: cached_setpoints_ok_def dict_get_action_update)

lemma cached_setpoints_initial: "cached_setpoints_ok setpoint_in_range initial_last_action"
  by (simp add: cached_setpoints_ok_def initial_last_action_def dict_get_def)

lemma command_inv_initial: "command_inv (initial_state sensors [])"
  by (simp add: command_inv_def initial_state_def cached_setpoints_initial)

lemma command_inv_same:
  "last_action s' = last_action s \<Longrightarrow> action_table s' = action_table s \<Longrightarrow>
   command_inv s \<Longrightarrow> command_inv s'"
  by (simp add: command_inv_def)

lemma sqlite_integer_in_range: "setpoint_in_range v \<Longrightarrow> setpoint_in_range (sqlite_integer v)"
proof (cases v)
  case (JFloat f)
  assume "setpoint_in_range v"
  with JFloat show ?thesis
    by (cases f) (auto simp: le_floor_iff floor_le_iff)
qed auto

lemma command_inv_append:
  assumes inv: "command_inv s" and l: "setpoint_in_range l" and r: "setpoint_in_range r"
    and row: "setpoint_in_range (ad_left_motor row)" "setpoint_in_range (ad_right_motor row)"
    and cache: "last_action s' = dict_update (last_action s) (action_update_dict row l r)"
    and table: "action_table s' = action_table s @ [row]"
  shows "command_inv s'"
  using assms by (simp add: command_inv_def cached_setpoints_updated)

lemma command_inv_reload:
  assumes inv: "command_inv s" and row: "row \<in> set (action_table s)"
    and cache: "last_action s' = dict_update d (action_row_dict row)"
    and table: "action_table s' = action_table s"
  shows "command_inv s'"
  using assms by (auto simp: command_inv_def action_row_dict_def cached_setpoints_updated)

lemma create_action_stored:
  assumes "db_fault e = None"
  shows "last_action (snd (create_action e a s)) =
           dict_update (last_action s)
             (action_update_dict
                (action_row e (JInt (max (- 100) (min 100 (left_motor a))))
                   (JInt (max (- 100) (min 100 (right_motor a)))) (source_or_api (source a)) s)
                (JInt (max (- 100) (min 100 (left_motor a))))
                (JInt (max (- 100) (min 100 (right_motor a)))))"
    and "action_table (snd (create_action e a s)) =
           action_table s @
             [action_row e (JInt (max (- 100) (min 100 (left_motor a))))
                (JInt (max (- 100) (min 100 (right_motor a)))) (source_or_api (source a)) s]"
  using assms by (simp_all add: create_action_def Let_def)

lemma create_action_fault:
  "db_fault e = Some x \<Longrightarrow>
   create_action e a s = (HTTPError 500 (''Error storing action: '' @ str_exn x), s)"
  by (simp add: create_action_def Let_def)

lemma command_inv_post_actions: "command_inv s \<Longrightarrow> command_inv (snd (post_actions e a s))"
proof (cases "ActionPayload_valid a \<and> db_fault e = None")
  case True
  assume inv: "command_inv s"
  show ?thesis
    using True
    by (auto intro!: command_inv_append [OF inv _ _ _ _ create_action_stored(1)
                       create_action_stored(2)]
          simp: post_actions_def action_row_def)
next
  case False
  assume "command_inv s"
  then show ?thesis
    using False by (auto simp: post_actions_def create_action_fault)
qed

lemma robot_try_body_command:
  "command_inv s \<Longrightarrow> command_inv (snd (robot_try_body e ws a s))"
proof -
  assume inv: "command_inv s"
  have store: "command_inv (snd (robot_store_action e ws l r s))"
    if "setpoint_in_range l" "setpoint_in_range r" for l r
  proof (cases "db_fault e")
    case None
    show ?thesis
      using that
      by (intro command_inv_append [OF inv _ _ _ _ robot_store_action_stored(1) [OF None]
                  robot_store_action_stored(2) [OF None]])
         (simp_all add: action_row_def sqlite_integer_in_range)
  next
    case (Some x)
    then show ?thesis using inv by (simp add: robot_store_action_fault command_inv_def)
  qed
  have sent: "command_inv (snd (send e ws m s))" for m
    using inv by (simp add: command_inv_def)
  show ?thesis
    unfolding robot_try_body_def
    by (auto simp: inv sent store clamp_motor_in_range split: sum.splits)
qed

lemma command_inv_robot_message:
  "command_inv s \<Longrightarrow> command_inv (snd (robot_message e ws loaded s))"
proof -
  assume inv: "command_inv s"
  have "command_inv (case loaded of None \<Rightarrow> s | Some a \<Rightarrow> snd (robot_try_body e ws a s))"
    using inv by (auto simp: robot_try_body_command split: option.splits)
  then show ?thesis
    by (rule command_inv_same [rotated 2]) (simp_all add: robot_message_cache)
qed

lemma command_inv_get_latest_action:
  "command_inv s \<Longrightarrow> command_inv (snd (get_latest_action e s))"
proof -
  assume inv: "command_inv s"
  show ?thesis
  proof (cases "db_fault e = None \<and> cached_row s = None")
    case True
    show ?thesis
    proof (cases "latest_by ad_timestamp (action_table s)")
      case None
      then show ?thesis using True inv by (simp add: get_latest_action_def)
    next
      case (Some row)
      have "command_inv (s\<lparr> last_action := dict_update (last_action s) (action_row_dict row) \<rparr>)"
        by (rule command_inv_reload [OF inv latest_by_in [OF Some]]) simp_all
      then show ?thesis using True Some by (simp add: get_latest_action_def)
    qed
  next
    case False
    then show ?thesis using inv by (auto simp: get_latest_action_def split: option.splits)
  qed
qed

lemma command_inv_restart:
  assumes inv: "command_inv s"
  shows "command_inv
           (startup_event ((initial_state (sensor_table s) (action_table s))\<lparr> wire := w \<rparr>))"
proof (cases "latest_by ad_timestamp (action_table s)")
  case None
  then have "action_table s = []" by (simp add: latest_by_None)
  then show ?thesis
    using None
    by (simp add: startup_event_def Let_def initial_state_def command_inv_def
          cached_setpoints_initial split: option.splits)
next
  case (Some row)
  then have row: "row \<in> set (action_table s)" by (rule latest_by_in)
  have "command_inv
          (startup_event ((initial_state (sensor_table s) (action_table s))\<lparr> wire := w \<rparr>))"
    by (rule command_inv_reload [OF inv row, of _ initial_last_action])
       (simp_all add: startup_event_def Let_def initial_state_def Some split: option.splits)
  then show ?thesis .
qed

lemma command_inv_step: "command_inv s \<Longrightarrow> command_inv (apply_operation opn s)"
proof (cases opn)
  case Restart
  assume "command_inv s"
  then show ?thesis using Restart by (simp add: command_inv_restart)
next
  case (PostActions e a)
  assume "command_inv s"
  then show ?thesis using PostActions by (simp add: command_inv_post_actions)
next
  case (RobotMessage e ws loaded)
  assume "command_inv s"
  then show ?thesis using RobotMessage by (simp add: command_inv_robot_message)
next
  case (GetLatestAction e)
  assume "command_inv s"
  then show ?thesis using GetLatestAction by (simp add: command_inv_get_latest_action)
qed (auto intro!: command_inv_same [of _ s]
       simp: store_sensor_data_telemetry get_latest_sensor_data_fields
             dashboard_telemetry robot_pool_fields)

lemma command_inv_run: "command_inv s \<Longrightarrow> command_inv (run ops s)"
  by (induction ops arbitrary: s) (auto simp: command_inv_step)

lemma post_sensors_cache:
  assumes "telemetry_inv s" and "\<forall>req \<in> set reqs. db_fault (fst req) = None" and "reqs \<noteq> []"
  shows "last_sensor_data (post_sensors reqs s) =
           telemetry_snapshot (fst (last reqs)) (snd (last reqs))
             (int (length (sensor_table s)) + int (length reqs))"
  using assms
proof (induction reqs arbitrary: s)
  case Nil
  then show ?case by simp
next
  case (Cons req reqs)
  obtain e p where req: "req = (e, p)" by (cases req)
  let ?s1 = "snd (store_sensor_data e p s)"
  have ok: "db_fault e = None" using Cons.prems(2) req by simp
  have inv1: "telemetry_inv ?s1" using Cons.prems(1) by (rule telemetry_inv_store)
  have cache1: "last_sensor_data ?s1 = telemetry_snapshot e p (int (length (sensor_table s)) + 1)"
    using Cons.prems(1) ok
    by (simp add: store_sensor_data_telemetry telemetry_overwrite telemetry_snapshot_keys
          telemetry_inv_def)
  have len1: "length (sensor_table ?s1) = Suc (length (sensor_table s))"
    using ok by (simp add: store_sensor_data_telemetry)
  show ?case
  proof (cases reqs)
    case Nil
    then show ?thesis using req cache1 by simp
  next
    case (Cons r rs)
    then have "last_sensor_data (post_sensors reqs ?s1) =
                 telemetry_snapshot (fst (last reqs)) (snd (last reqs))
                   (int (length (sensor_table ?s1)) + int (length reqs))"
      using Cons.prems(2) inv1 by (intro Cons.IH) simp_all
    then show ?thesis using req Cons len1 by (simp add: algebra_simps)
  qed
qed

lemma get_latest_sensor_data_cached:
  "last_sensor_data s \<noteq> [] \<Longrightarrow>
   get_latest_sensor_data s = (Returned (JObj (last_sensor_data s)), s)"
  by (simp add: get_latest_sensor_data_def)

lemma telemetry_snapshot_not_empty: "telemetry_snapshot e p i \<noteq> []"
  by (simp add: telemetry_snapshot_def)

lemma robot_message_stored:
  assumes l: "clamp_motor lv = Inr cl" and r: "clamp_motor rv = Inr cr" and db: "db_fault e = None"
  shows "last_action (snd (robot_message e ws (Some (motor_message lv rv)) s)) =
           dict_update (last_action s)
             (action_update_dict (action_row e cl cr ''websocket'' s) cl cr)"
    and "action_table (snd (robot_message e ws (Some (motor_message lv rv)) s)) =
           action_table s @ [action_row e cl cr ''websocket'' s]"
proof -
  have "robot_try_body e ws (motor_message lv rv) s = robot_store_action e ws cl cr s"
    using robot_try_body_object [of "[(''left_motor'', lv), (''right_motor'', rv)]" lv rv e ws s]
      l r
    by (simp add: motor_message_def)
  then show "last_action (snd (robot_message e ws (Some (motor_message lv rv)) s)) =
           dict_update (last_action s)
             (action_update_dict (action_row e cl cr ''websocket'' s) cl cr)"
    and "action_table (snd (robot_message e ws (Some (motor_message lv rv)) s)) =
           action_table s @ [action_row e cl cr ''websocket'' s]"
    using db by (simp_all add: robot_message_cache robot_store_action_stored)
qed

lemma validated_clamp_is_identity:
  "ActionPayload_valid a \<Longrightarrow>
   max (- 100) (min 100 (left_motor a)) = left_motor a \<and>
   max (- 100) (min 100 (right_motor a)) = right_motor a"
  by (auto simp: ActionPayload_valid_def)

text \<open>A command the robot socket accepts, with every connection concerned alive.\<close>

lemma robot_message_accepted:
  assumes l: "clamp_motor lv = Inr cl" and r: "clamp_motor rv = Inr cr"
    and db: "db_fault e = None" and ws: "send_json e ws = None"
    and live: "\<forall>c \<in> set (active_dashboard_connections s). send_json e c = None"
  shows "robot_message e ws (Some (motor_message lv rv)) s =
     (None,
      s\<lparr> action_table := action_table s @ [action_row e cl cr ''websocket'' s],
         last_action := dict_update (last_action s)
           (action_update_dict (action_row e cl cr ''websocket'' s) cl cr),
         wire := wire s @
           (ws, acknowledgment cl cr (action_row e cl cr ''websocket'' s), None) #
           map (\<lambda>c. (c,
                  JObj [(''type'', JStr ''action_update''),
                        (''action'', JObj (dict_update (last_action s)
                           (action_update_dict (action_row e cl cr ''websocket'' s) cl cr))),
                        (''timestamp'', JFloat (Finite (time_time2 e)))], None))
             (active_dashboard_connections s) \<rparr>)"
proof -
  have body: "robot_try_body e ws (motor_message lv rv) s = robot_store_action e ws cl cr s"
    using robot_try_body_object [of "[(''left_motor'', lv), (''right_motor'', rv)]" lv rv e ws s]
      l r
    by (simp add: motor_message_def)
  have bc: "broadcast (send_json e) m (active_dashboard_connections s) w =
              (active_dashboard_connections s,
               w @ map (\<lambda>c. (c, m, None)) (active_dashboard_connections s))" for m w
    using live by (rule broadcast_all_ok)
  show ?thesis
    using ws db
    by (simp add: robot_message_def body robot_store_action_def send_def Let_def
          broadcast_sensor_data_def bc action_update_message_def)
qed

section \<open>Results on the connection registry and the broadcast\<close>

text \<open>
  Claim C1 says that a broadcast to a pool in which exactly one connection fails its send
  delivers the message to each of the other connections and leaves the failing one out
  of the pool. The loop iterates over the pool it is shortening. When the dead
  connection \<open>d\<close> is not the last one, the connection \<open>y\<close> standing right after it is
  skipped: after the call \<open>d\<close> is out of the pool and every connection other than \<open>d\<close>
  and \<open>y\<close> has received the message once, but \<open>y\<close> has received nothing.
\<close>
theorem broadcast_skips_the_connection_after_a_dead_one:
  assumes pool: "active_dashboard_connections s = xs @ d # y # ys"
    and dist: "distinct (xs @ d # y # ys)"
    and dead: "send_json e d = Some x"
    and live: "\<forall>c \<in> set (xs @ y # ys). send_json e c = None"
  shows "active_dashboard_connections (broadcast_sensor_data e data s) = xs @ y # ys
       \<and> d \<notin> set (active_dashboard_connections (broadcast_sensor_data e data s))
       \<and> received (wire (broadcast_sensor_data e data s)) y = received (wire s) y
       \<and> (\<forall>c \<in> set (xs @ ys).
            received (wire (broadcast_sensor_data e data s)) c = received (wire s) c @ [data])"
proof -
  let ?ok = "\<lambda>c. (c, data, None)"
  have b: "broadcast (send_json e) data (xs @ d # y # ys) (wire s) =
           (xs @ y # ys, wire s @ map ?ok xs @ [(d, data, Some x)] @ map ?ok ys)"
    using broadcast_one_dead [of "send_json e" d x xs "y # ys" data "wire s"] dead live
    by simp
  have p: "active_dashboard_connections (broadcast_sensor_data e data s) = xs @ y # ys"
    and w: "wire (broadcast_sensor_data e data s) =
            wire s @ map ?ok xs @ [(d, data, Some x)] @ map ?ok ys"
    using b pool by (simp_all add: broadcast_sensor_data_def)
  have dx: "distinct xs" and dy: "distinct ys" and yx: "y \<notin> set xs" and yy: "y \<notin> set ys"
    and dis: "set xs \<inter> set ys = {}"
    using dist by auto
  have y: "received (wire (broadcast_sensor_data e data s)) y = received (wire s) y"
    using dx dy yx yy
    by (simp add: w received_append received_Cons received_delivered_distinct)
  have others: "received (wire (broadcast_sensor_data e data s)) c = received (wire s) c @ [data]"
    if "c \<in> set (xs @ ys)" for c
    using that dx dy dis
    by (auto simp: w received_append received_Cons received_delivered_distinct)
  show ?thesis using p y others dist by auto
qed

theorem broadcast_skips_the_connection_after_a_dead_one_witness:
  "active_dashboard_connections (serving [1, 2, 3] []) = [] @ 1 # 2 # [3]
   \<and> distinct ([] @ (1::nat) # 2 # [3])
   \<and> send_json (example_env None (dead_only 1)) 1 = Some (Exn RuntimeError ''closed'')
   \<and> send_json (example_env None (dead_only 1)) 2 = None
   \<and> send_json (example_env None (dead_only 1)) 3 = None
   \<and> active_dashboard_connections
        (broadcast_sensor_data (example_env None (dead_only 1)) JNull (serving [1, 2, 3] []))
      = [2, 3]
   \<and> received (wire (broadcast_sensor_data (example_env None (dead_only 1)) JNull
        (serving [1, 2, 3] []))) 2 = []
   \<and> received (wire (broadcast_sensor_data (example_env None (dead_only 1)) JNull
        (serving [1, 2, 3] []))) 3 = [JNull]"
  using broadcast_skips_the_connection_after_a_dead_one
          [of "serving [1, 2, 3] []" "[]" 1 2 "[3]" "example_env None (dead_only 1)"
              "Exn RuntimeError ''closed''" JNull]
  by (simp add: serving_def initial_state_def example_env_def dead_only_def received_def)

text \<open>
  Claim C8: unregistering a connection that is absent from its pool
  (\<open>disconnect_dashboard\<close>, \<open>disconnect_robot\<close>) changes nothing in the state, and neither
  does a second such call. The operation has no failing result.
\<close>
theorem unregister_absent_is_noop:
  "(ws \<notin> set (active_dashboard_connections s) \<longrightarrow>
      disconnect_dashboard ws s = s \<and> disconnect_dashboard ws (disconnect_dashboard ws s) = s)
   \<and> (ws \<notin> set (active_robot_connections s) \<longrightarrow>
      disconnect_robot ws s = s \<and> disconnect_robot ws (disconnect_robot ws s) = s)"
  by (simp add: disconnect_dashboard_def disconnect_robot_def disconnect_def)

theorem unregister_absent_is_noop_witness:
  "4 \<notin> set (active_dashboard_connections (serving [1, 2] [7]))
   \<and> 4 \<notin> set (active_robot_connections (serving [1, 2] [7]))
   \<and> disconnect_dashboard 4 (serving [1, 2] [7]) = serving [1, 2] [7]
   \<and> disconnect_dashboard 4 (disconnect_dashboard 4 (serving [1, 2] [7])) = serving [1, 2] [7]
   \<and> disconnect_robot 4 (serving [1, 2] [7]) = serving [1, 2] [7]
   \<and> disconnect_robot 4 (disconnect_robot 4 (serving [1, 2] [7])) = serving [1, 2] [7]"
  using unregister_absent_is_noop [of 4 "serving [1, 2] [7]"]
  by (simp add: serving_def initial_state_def)

section \<open>Results on the command ingress\<close>

text \<open>
  Claim C3: when the storage append fails during a command ingress, the error goes to
  the immediate caller and nothing else happens. On \<^verbatim>\<open>POST /actions/\<close> the answer is HTTP
  500 and the state is what it was: no row, the cache untouched, nothing sent to robots
  or dashboards. On the robot socket, for a message that carries two comparable
  setpoints, the only sends are to the originating connection: the \<open>Database error\<close>
  payload, followed, only when that send itself raises, by one more error payload from
  the outer handler; the caches, the tables and the pools are what they were.
\<close>
theorem storage_failure_is_reported_and_nothing_else_happens:
  assumes "db_fault e = Some x"
  shows "(ActionPayload_valid action \<longrightarrow>
            post_actions e action s =
              (HTTPError 500 (''Error storing action: '' @ str_exn x), s))
       \<and> (map_of d ''left_motor'' = Some lv \<and> map_of d ''right_motor'' = Some rv
            \<and> numeric lv \<and> numeric rv \<longrightarrow>
            robot_message e ws (Some (JObj d)) s =
              (send_json e ws,
               s\<lparr> wire := wire s @
                    (ws, JObj [(''error'', JStr (''Database error: '' @ str_exn x))], send_json e ws) #
                    (case send_json e ws of
                       None \<Rightarrow> []
                     | Some y \<Rightarrow>
                         [(ws, JObj [(''error'', JStr (if exn_cls y = JSONDecodeError
                                                      then ''Invalid JSON'' else str_exn y))],
                           Some y)]) \<rparr>))"
proof (intro conjI impI)
  assume "ActionPayload_valid action"
  then show "post_actions e action s =
               (HTTPError 500 (''Error storing action: '' @ str_exn x), s)"
    using assms by (simp add: post_actions_def create_action_def Let_def)
next
  assume "map_of d ''left_motor'' = Some lv \<and> map_of d ''right_motor'' = Some rv
            \<and> numeric lv \<and> numeric rv"
  then show "robot_message e ws (Some (JObj d)) s =
              (send_json e ws,
               s\<lparr> wire := wire s @
                    (ws, JObj [(''error'', JStr (''Database error: '' @ str_exn x))], send_json e ws) #
                    (case send_json e ws of
                       None \<Rightarrow> []
                     | Some y \<Rightarrow>
                         [(ws, JObj [(''error'', JStr (if exn_cls y = JSONDecodeError
                                                      then ''Invalid JSON'' else str_exn y))],
                           Some y)]) \<rparr>)"
    using assms robot_message_fault [of d lv rv e x ws s]
    by (simp only: error_payload_def)
qed

theorem storage_failure_is_reported_and_nothing_else_happens_witness:
  "db_fault (example_env (Some (Exn StorageError ''disk full'')) all_alive)
     = Some (Exn StorageError ''disk full'')
   \<and> ActionPayload_valid \<lparr> left_motor = 40, right_motor = - 40, source = None \<rparr>
   \<and> post_actions (example_env (Some (Exn StorageError ''disk full'')) all_alive)
        \<lparr> left_motor = 40, right_motor = - 40, source = None \<rparr> (serving [1, 2] [7])
      = (HTTPError 500 ''Error storing action: disk full'', serving [1, 2] [7])
   \<and> robot_message (example_env (Some (Exn StorageError ''disk full'')) all_alive) 7
        (Some (JObj [(''left_motor'', JInt 200), (''right_motor'', JInt (- 200))]))
        (serving [1, 2] [7])
      = (None, (serving [1, 2] [7])
           \<lparr> wire := [(7, JObj [(''error'', JStr ''Database error: disk full'')], None)] \<rparr>)"
  using storage_failure_is_reported_and_nothing_else_happens
          [of "example_env (Some (Exn StorageError ''disk full'')) all_alive"
              "Exn StorageError ''disk full''"
              "\<lparr> left_motor = 40, right_motor = - 40, source = None \<rparr>" "serving [1, 2] [7]"
              "[(''left_motor'', JInt 200), (''right_motor'', JInt (- 200))]"
              "JInt 200" "JInt (- 200)" 7]
  by (simp add: example_env_def all_alive_def ActionPayload_valid_def serving_def
        initial_state_def)

text \<open>
  Claim C4: with the two dashboards \<open>d1\<close> and \<open>d2\<close> registered, the storage working and
  the sends to the three connections completing, the robot message
  \<^verbatim>\<open>{"left_motor": 200, "right_motor": -200}\<close> is acknowledged on its own connection with
  \<open>action_received\<close>, \<open>left_motor\<close> 100 and \<open>right_motor\<close> -100, and each dashboard is sent
  one \<open>action_update\<close> whose action is the cache, which holds 100 and -100.
\<close>
theorem clamped_command_is_acknowledged_and_broadcast:
  assumes pool: "active_dashboard_connections s = [d1, d2]"
    and ws: "send_json e ws = None" and d1: "send_json e d1 = None"
    and d2: "send_json e d2 = None" and db: "db_fault e = None"
  shows "wire (snd (robot_message e ws
                 (Some (JObj [(''left_motor'', JInt 200), (''right_motor'', JInt (- 200))])) s)) =
           wire s @
           [(ws, JObj [(''status'', JStr ''action_received''),
                       (''left_motor'', JInt 100),
                       (''right_motor'', JInt (- 100)),
                       (''timestamp'', JFloat (Finite (time_time e))),
                       (''id'', JInt (int (length (action_table s)) + 1))], None),
            (d1, JObj [(''type'', JStr ''action_update''),
                       (''action'', JObj (last_action (snd (robot_message e ws
                          (Some (JObj [(''left_motor'', JInt 200), (''right_motor'', JInt (- 200))]))
                          s)))),
                       (''timestamp'', JFloat (Finite (time_time2 e)))], None),
            (d2, JObj [(''type'', JStr ''action_update''),
                       (''action'', JObj (last_action (snd (robot_message e ws
                          (Some (JObj [(''left_motor'', JInt 200), (''right_motor'', JInt (- 200))]))
                          s)))),
                       (''timestamp'', JFloat (Finite (time_time2 e)))], None)]
       \<and> dict_get (last_action (snd (robot_message e ws
                 (Some (JObj [(''left_motor'', JInt 200), (''right_motor'', JInt (- 200))])) s)))
             ''left_motor'' = Some (JInt 100)
       \<and> dict_get (last_action (snd (robot_message e ws
                 (Some (JObj [(''left_motor'', JInt 200), (''right_motor'', JInt (- 200))])) s)))
             ''right_motor'' = Some (JInt (- 100))
       \<and> fst (robot_message e ws
                 (Some (JObj [(''left_motor'', JInt 200), (''right_motor'', JInt (- 200))])) s) = None"
proof -
  let ?d = "[(''left_motor'', JInt 200), (''right_motor'', JInt (- 200))]"
  let ?row = "action_row e (JInt 100) (JInt (- 100)) ''websocket'' s"
  let ?cache = "dict_update (last_action s) (action_update_dict ?row (JInt 100) (JInt (- 100)))"
  let ?upd = "JObj [(''type'', JStr ''action_update''), (''action'', JObj ?cache),
                    (''timestamp'', JFloat (Finite (time_time2 e)))]"
  have body: "robot_try_body e ws (JObj ?d) s =
                robot_store_action e ws (JInt 100) (JInt (- 100)) s"
    using robot_try_body_object [of ?d "JInt 200" "JInt (- 200)" e ws s]
    by (simp add: clamp_motor_int)
  have bc: "broadcast (send_json e) m [d1, d2] w = ([d1, d2], w @ [(d1, m, None), (d2, m, None)])"
    for m w
    using broadcast_all_ok [of "[d1, d2]" "send_json e" m w] d1 d2 by simp
  have store: "robot_store_action e ws (JInt 100) (JInt (- 100)) s =
     (None, s\<lparr> action_table := action_table s @ [?row], last_action := ?cache,
               active_dashboard_connections := [d1, d2],
               wire := wire s @ [(ws, acknowledgment (JInt 100) (JInt (- 100)) ?row, None),
                                 (d1, ?upd, None), (d2, ?upd, None)] \<rparr>)"
    using ws db pool
    by (simp add: robot_store_action_def send_def Let_def broadcast_sensor_data_def bc
          action_update_message_def)
  have msg: "robot_message e ws (Some (JObj ?d)) s =
     (None, s\<lparr> action_table := action_table s @ [?row], last_action := ?cache,
               active_dashboard_connections := [d1, d2],
               wire := wire s @ [(ws, acknowledgment (JInt 100) (JInt (- 100)) ?row, None),
                                 (d1, ?upd, None), (d2, ?upd, None)] \<rparr>)"
    by (simp add: robot_message_def body store)
  show ?thesis
    by (simp add: msg acknowledgment_def action_row_def dict_get_action_update)
qed

theorem clamped_command_is_acknowledged_and_broadcast_witness:
  "active_dashboard_connections (serving [1, 2] [7]) = [1, 2]
   \<and> send_json (example_env None all_alive) 7 = None
   \<and> send_json (example_env None all_alive) 1 = None
   \<and> send_json (example_env None all_alive) 2 = None
   \<and> db_fault (example_env None all_alive) = None
   \<and> received (wire (snd (robot_message (example_env None all_alive) 7
          (Some (JObj [(''left_motor'', JInt 200), (''right_motor'', JInt (- 200))]))
          (serving [1, 2] [7])))) 7
      = [JObj [(''status'', JStr ''action_received''),
               (''left_motor'', JInt 100),
               (''right_motor'', JInt (- 100)),
               (''timestamp'', JFloat (Finite 1700000000)),
               (''id'', JInt 1)]]
   \<and> dict_get (last_action (snd (robot_message (example_env None all_alive) 7
          (Some (JObj [(''left_motor'', JInt 200), (''right_motor'', JInt (- 200))]))
          (serving [1, 2] [7])))) ''left_motor'' = Some (JInt 100)"
  using clamped_command_is_acknowledged_and_broadcast
          [of "serving [1, 2] [7]" 1 2 "example_env None all_alive" 7]
  by (simp add: serving_def initial_state_def example_env_def all_alive_def received_def)

text \<open>
  Claim C7 says that a text that is not valid JSON is answered with exactly
  \<^verbatim>\<open>{"error": "Invalid JSON"}\<close> and changes neither cache nor storage. The handler leaves
  the judgment to \<^verbatim>\<open>json.loads\<close>, which accepts \<^verbatim>\<open>NaN\<close>, \<^verbatim>\<open>Infinity\<close> and \<^verbatim>\<open>-Infinity\<close>. The
  text \<^verbatim>\<open>{"left_motor": NaN, "right_motor": 0}\<close> is not JSON; \<^verbatim>\<open>json.loads\<close> returns the
  object with the float NaN, and the handler takes it as a command: it stores and caches
  \<open>left_motor\<close> 100 and acknowledges it. The text \<^verbatim>\<open>NaN\<close> alone is answered with the text
  of a \<open>TypeError\<close>.
\<close>
theorem nan_text_is_taken_as_a_command:
  "received (wire (snd (robot_message (example_env None all_alive) 7
       (Some (motor_message (JFloat NaN) (JInt 0))) (serving [1] [7])))) 7
     = [JObj [(''status'', JStr ''action_received''),
              (''left_motor'', JInt 100), (''right_motor'', JInt 0),
              (''timestamp'', JFloat (Finite 1700000000)), (''id'', JInt 1)]]
   \<and> dict_get (last_action (snd (robot_message (example_env None all_alive) 7
       (Some (motor_message (JFloat NaN) (JInt 0))) (serving [1] [7])))) ''left_motor''
     = Some (JInt 100)
   \<and> length (action_table (snd (robot_message (example_env None all_alive) 7
       (Some (motor_message (JFloat NaN) (JInt 0))) (serving [1] [7])))) = 1
   \<and> received (wire (snd (robot_message (example_env None all_alive) 7
       (Some (JFloat NaN)) (serving [1] [7])))) 7
     = [JObj [(''error'', JStr (''argument of type '' @ CHR 0x27 # ''float'' @ CHR 0x27 #
                                '' is not iterable''))]]"
proof -
  let ?e = "example_env None all_alive"
  have tx: "send_json ?e c = None" for c
    by (simp add: example_env_def all_alive_def)
  have db: "db_fault ?e = None" and t: "time_time ?e = 1700000000"
    by (simp_all add: example_env_def)
  have l: "clamp_motor (JFloat NaN) = Inr (JInt 100)"
    by (simp add: clamp_motor_def py_min_def py_max_def)
  have r: "clamp_motor (JInt 0) = Inr (JInt 0)"
    by (simp add: clamp_motor_int)
  have live: "\<forall>c \<in> set (active_dashboard_connections (serving [1] [7])). send_json ?e c = None"
    by (simp add: tx)
  have bare: "robot_message ?e 7 (Some (JFloat NaN)) (serving [1] [7]) =
                (None, (serving [1] [7])
                   \<lparr> wire := wire (serving [1] [7]) @
                        [(7, error_payload (''argument of type '' @ quoted ''float'' @
                                            '' is not iterable''), None)] \<rparr>)"
    by (simp add: robot_message_def robot_try_body_def send_def tx)
  show ?thesis
    unfolding robot_message_accepted [OF l r db tx live] bare
    by (simp add: serving_def initial_state_def received_def acknowledgment_def action_row_def
          t dict_get_action_update error_payload_def quoted_def)
qed

text \<open>
  Claim C7 as amended: a text that \<^verbatim>\<open>json.loads\<close> rejects with \<open>JSONDecodeError\<close>, on a
  connection whose send completes, is answered on that connection with exactly
  \<^verbatim>\<open>{"error": "Invalid JSON"}\<close>; the state is unchanged but for that reply on the wire (the
  connection stays in the robot pool, no cache or table is touched), and the receive
  loop goes on with the texts that follow. A command that follows on the same
  connection, with the storage working and the sends completing, is stored, cached,
  acknowledged and broadcast to every dashboard, from the state the rejected text found.
\<close>
theorem rejected_text_is_answered_and_the_next_command_is_processed:
  assumes tx: "send_json e ws = None"
  shows "robot_message e ws None s =
           (None, s\<lparr> wire := wire s @ [(ws, JObj [(''error'', JStr ''Invalid JSON'')], None)] \<rparr>)
       \<and> robot_loop ws ((e, None) # rest) s =
           robot_loop ws rest
             (s\<lparr> wire := wire s @ [(ws, JObj [(''error'', JStr ''Invalid JSON'')], None)] \<rparr>)
       \<and> (clamp_motor lv = Inr cl \<and> clamp_motor rv = Inr cr \<and> db_fault e' = None
            \<and> send_json e' ws = None
            \<and> (\<forall>c \<in> set (active_dashboard_connections s). send_json e' c = None) \<longrightarrow>
          robot_loop ws ((e, None) # (e', Some (motor_message lv rv)) # rest) s =
            robot_loop ws rest
              (s\<lparr> action_table := action_table s @ [action_row e' cl cr ''websocket'' s],
                 last_action := dict_update (last_action s)
                   (action_update_dict (action_row e' cl cr ''websocket'' s) cl cr),
                 wire := wire s @
                   (ws, JObj [(''error'', JStr ''Invalid JSON'')], None) #
                   (ws, acknowledgment cl cr (action_row e' cl cr ''websocket'' s), None) #
                   map (\<lambda>c. (c,
                          JObj [(''type'', JStr ''action_update''),
                                (''action'', JObj (dict_update (last_action s)
                                   (action_update_dict (action_row e' cl cr ''websocket'' s)
                                      cl cr))),
                                (''timestamp'', JFloat (Finite (time_time2 e')))], None))
                     (active_dashboard_connections s) \<rparr>))"
proof (intro conjI impI)
  let ?s1 = "s\<lparr> wire := wire s @ [(ws, JObj [(''error'', JStr ''Invalid JSON'')], None)] \<rparr>"
  show first: "robot_message e ws None s = (None, ?s1)"
    using tx by (simp add: robot_message_def send_def error_payload_def)
  then show loop: "robot_loop ws ((e, None) # rest) s = robot_loop ws rest ?s1" for rest
    by simp
  assume h: "clamp_motor lv = Inr cl \<and> clamp_motor rv = Inr cr \<and> db_fault e' = None
            \<and> send_json e' ws = None
            \<and> (\<forall>c \<in> set (active_dashboard_connections s). send_json e' c = None)"
  then have live: "\<forall>c \<in> set (active_dashboard_connections ?s1). send_json e' c = None"
    by simp
  have row: "action_row e' cl cr ''websocket'' ?s1 = action_row e' cl cr ''websocket'' s"
    by (simp add: action_row_def)
  have "robot_loop ws ((e, None) # (e', Some (motor_message lv rv)) # rest) s =
        robot_loop ws ((e', Some (motor_message lv rv)) # rest) ?s1"
    by (rule loop)
  also have "\<dots> = robot_loop ws rest (snd (robot_message e' ws (Some (motor_message lv rv)) ?s1))"
    using h live by (simp add: robot_message_accepted)
  finally show "robot_loop ws ((e, None) # (e', Some (motor_message lv rv)) # rest) s =
            robot_loop ws rest
              (s\<lparr> action_table := action_table s @ [action_row e' cl cr ''websocket'' s],
                 last_action := dict_update (last_action s)
                   (action_update_dict (action_row e' cl cr ''websocket'' s) cl cr),
                 wire := wire s @
                   (ws, JObj [(''error'', JStr ''Invalid JSON'')], None) #
                   (ws, acknowledgment cl cr (action_row e' cl cr ''websocket'' s), None) #
                   map (\<lambda>c. (c,
                          JObj [(''type'', JStr ''action_update''),
                                (''action'', JObj (dict_update (last_action s)
                                   (action_update_dict (action_row e' cl cr ''websocket'' s)
                                      cl cr))),
                                (''timestamp'', JFloat (Finite (time_time2 e')))], None))
                     (active_dashboard_connections s) \<rparr>)"
    using h live by (simp add: robot_message_accepted row)
qed

theorem rejected_text_is_answered_and_the_next_command_is_processed_witness:
  "send_json (example_env None all_alive) 7 = None
   \<and> clamp_motor (JInt 30) = Inr (JInt 30) \<and> clamp_motor (JInt (- 30)) = Inr (JInt (- 30))
   \<and> db_fault (example_env None all_alive) = None
   \<and> send_json (example_env None all_alive) 1 = None
   \<and> robot_message (example_env None all_alive) 7 None (serving [1] [7]) =
       (None, (serving [1] [7])\<lparr> wire := [(7, JObj [(''error'', JStr ''Invalid JSON'')], None)] \<rparr>)
   \<and> 7 \<in> set (active_robot_connections
         (snd (robot_message (example_env None all_alive) 7 None (serving [1] [7]))))
   \<and> received (wire (robot_loop 7
         [(example_env None all_alive, None),
          (example_env None all_alive, Some (motor_message (JInt 30) (JInt (- 30))))]
         (serving [1] [7]))) 7
      = [JObj [(''error'', JStr ''Invalid JSON'')],
         JObj [(''status'', JStr ''action_received''),
               (''left_motor'', JInt 30), (''right_motor'', JInt (- 30)),
               (''timestamp'', JFloat (Finite 1700000000)), (''id'', JInt 1)]]
   \<and> length (received (wire (robot_loop 7
         [(example_env None all_alive, None),
          (example_env None all_alive, Some (motor_message (JInt 30) (JInt (- 30))))]
         (serving [1] [7]))) 1) = 1
   \<and> length (action_table (robot_loop 7
         [(example_env None all_alive, None),
          (example_env None all_alive, Some (motor_message (JInt 30) (JInt (- 30))))]
         (serving [1] [7]))) = 1
   \<and> dict_get (last_action (robot_loop 7
         [(example_env None all_alive, None),
          (example_env None all_alive, Some (motor_message (JInt 30) (JInt (- 30))))]
         (serving [1] [7]))) ''left_motor'' = Some (JInt 30)"
proof -
  let ?e = "example_env None all_alive"
  have tx: "send_json ?e c = None" for c
    by (simp add: example_env_def all_alive_def)
  have db: "db_fault ?e = None" and t: "time_time ?e = 1700000000"
    by (simp_all add: example_env_def)
  have l: "clamp_motor (JInt 30) = Inr (JInt 30)"
    and r: "clamp_motor (JInt (- 30)) = Inr (JInt (- 30))"
    by (simp_all add: clamp_motor_int)
  have live: "\<forall>c \<in> set (active_dashboard_connections (serving [1] [7])). send_json ?e c = None"
    by (simp add: tx)
  note inst = rejected_text_is_answered_and_the_next_command_is_processed
               [of ?e 7 "serving [1] [7]" "[]" "JInt 30" "JInt 30" "JInt (- 30)" "JInt (- 30)" ?e,
                OF tx]
  have first: "robot_message ?e 7 None (serving [1] [7]) =
       (None, (serving [1] [7])\<lparr> wire := wire (serving [1] [7]) @
                  [(7, JObj [(''error'', JStr ''Invalid JSON'')], None)] \<rparr>)"
    using inst by simp
  have loop: "robot_loop 7 [(?e, None), (?e, Some (motor_message (JInt 30) (JInt (- 30))))]
                (serving [1] [7]) =
              robot_loop 7 []
              ((serving [1] [7])
               \<lparr> action_table := action_table (serving [1] [7]) @
                    [action_row ?e (JInt 30) (JInt (- 30)) ''websocket'' (serving [1] [7])],
                 last_action := dict_update (last_action (serving [1] [7]))
                   (action_update_dict
                      (action_row ?e (JInt 30) (JInt (- 30)) ''websocket'' (serving [1] [7]))
                      (JInt 30) (JInt (- 30))),
                 wire := wire (serving [1] [7]) @
                   (7, JObj [(''error'', JStr ''Invalid JSON'')], None) #
                   (7, acknowledgment (JInt 30) (JInt (- 30))
                         (action_row ?e (JInt 30) (JInt (- 30)) ''websocket'' (serving [1] [7])),
                    None) #
                   map (\<lambda>c. (c,
                          JObj [(''type'', JStr ''action_update''),
                                (''action'', JObj (dict_update (last_action (serving [1] [7]))
                                   (action_update_dict
                                      (action_row ?e (JInt 30) (JInt (- 30)) ''websocket''
                                         (serving [1] [7]))
                                      (JInt 30) (JInt (- 30))))),
                                (''timestamp'', JFloat (Finite (time_time2 ?e)))], None))
                     (active_dashboard_connections (serving [1] [7])) \<rparr>)"
    using inst l r db tx [of 7] live by blast
  show ?thesis
    unfolding loop first
    by (simp add: tx db l r serving_def initial_state_def received_def acknowledgment_def
          action_row_def t disconnect_robot_def dict_get_action_update)
qed

text \<open>
  Claim C10: a robot message that is a JSON object with both keys, one of whose
  setpoints does not support the comparison with an integer, is answered on the same
  connection with an error payload carrying the text of the \<open>TypeError\<close>; nothing else
  in the state changes (the connection stays registered, no row, the cache untouched),
  and the loop goes on when the send completes.
\<close>
theorem non_numeric_setpoint_is_answered_with_an_error:
  assumes l: "map_of d ''left_motor'' = Some lv" and r: "map_of d ''right_motor'' = Some rv"
    and bad: "\<not> numeric lv \<or> \<not> numeric rv"
  shows "robot_message e ws (Some (JObj d)) s =
           (send_json e ws,
            s\<lparr> wire := wire s @
                 [(ws, JObj [(''error'',
                        JStr (str_exn (not_supported ''<'' (if numeric lv then rv else lv))))],
                   send_json e ws)] \<rparr>)
       \<and> exn_cls (not_supported ''<'' (if numeric lv then rv else lv)) = TypeError"
proof (cases "numeric lv")
  case True
  then obtain cl where "clamp_motor lv = Inr cl" using clamp_motor_numeric by blast
  moreover have "clamp_motor rv = Inl (not_supported ''<'' rv)"
    using True bad clamp_motor_not_numeric by blast
  ultimately have "robot_try_body e ws (JObj d) s = (Some (not_supported ''<'' rv), s)"
    using robot_try_body_object [OF l r] by simp
  then show ?thesis
    using True by (simp add: robot_message_def send_def error_payload_def not_supported_def)
next
  case False
  then have "clamp_motor lv = Inl (not_supported ''<'' lv)"
    using clamp_motor_not_numeric by blast
  then have "robot_try_body e ws (JObj d) s = (Some (not_supported ''<'' lv), s)"
    using robot_try_body_object [OF l r] by simp
  then show ?thesis
    using False by (simp add: robot_message_def send_def error_payload_def not_supported_def)
qed

theorem non_numeric_setpoint_is_answered_with_an_error_witness:
  "map_of [(''left_motor'', JStr ''fast''), (''right_motor'', JInt 10)] ''left_motor''
     = Some (JStr ''fast'')
   \<and> map_of [(''left_motor'', JStr ''fast''), (''right_motor'', JInt 10)] ''right_motor''
     = Some (JInt 10)
   \<and> \<not> numeric (JStr ''fast'')
   \<and> robot_message (example_env None all_alive) 7
        (Some (JObj [(''left_motor'', JStr ''fast''), (''right_motor'', JInt 10)]))
        (serving [1, 2] [7])
      = (None, (serving [1, 2] [7])
           \<lparr> wire := [(7, JObj [(''error'',
                          JStr (CHR 0x27 # ''<'' @ CHR 0x27 #
                                '' not supported between instances of '' @
                                CHR 0x27 # ''str'' @ CHR 0x27 # '' and '' @
                                CHR 0x27 # ''int'' @ [CHR 0x27]))], None)] \<rparr>)"
  using non_numeric_setpoint_is_answered_with_an_error
          [of "[(''left_motor'', JStr ''fast''), (''right_motor'', JInt 10)]"
              "JStr ''fast''" "JInt 10" "example_env None all_alive" 7 "serving [1, 2] [7]"]
  by (simp add: serving_def initial_state_def example_env_def all_alive_def not_supported_def
        quoted_def)

text \<open>
  Claim C2 says that \<^verbatim>\<open>POST /actions/\<close> accepts \<open>left_motor = 150\<close> and ingests it as 100
  (and -150 as -100). The request model bounds both setpoints (\<^verbatim>\<open>ge=-100, le=100\<close>), so
  such a body is answered with HTTP 422 before \<open>create_action\<close> runs: nothing is stored,
  cached or sent.
\<close>
theorem post_actions_answers_150_with_422:
  "post_actions (example_env None all_alive)
     \<lparr> left_motor = 150, right_motor = 0, source = None \<rparr> (serving [1, 2] [7])
     = (HTTPError 422 ''Unprocessable Entity'', serving [1, 2] [7])
   \<and> post_actions (example_env None all_alive)
     \<lparr> left_motor = - 150, right_motor = 0, source = None \<rparr> (serving [1, 2] [7])
     = (HTTPError 422 ''Unprocessable Entity'', serving [1, 2] [7])
   \<and> dict_get (last_action (snd (post_actions (example_env None all_alive)
        \<lparr> left_motor = 150, right_motor = 0, source = None \<rparr> (serving [1, 2] [7]))))
        ''left_motor'' = Some (JInt 0)
   \<and> action_table (snd (post_actions (example_env None all_alive)
        \<lparr> left_motor = 150, right_motor = 0, source = None \<rparr> (serving [1, 2] [7]))) = []"
  by (simp add: post_actions_def ActionPayload_valid_def serving_def initial_state_def
        initial_last_action_def dict_get_def)

text \<open>
  Claim C2 as amended: a body with \<open>left_motor\<close> 150 or -150 on \<^verbatim>\<open>POST /actions/\<close> is
  rejected with HTTP 422 and the state is what it was; the clamp is what the robot socket
  does: with the storage working, a robot message with \<open>left_motor\<close> 150 (and a comparable
  \<open>right_motor\<close>) is stored and cached with \<open>left_motor\<close> 100, and one with -150 with -100.
\<close>
theorem out_of_range_post_is_rejected_and_the_robot_socket_clamps:
  "(left_motor a = 150 \<or> left_motor a = - 150 \<longrightarrow>
      post_actions e a s = (HTTPError 422 ''Unprocessable Entity'', s))
   \<and> (db_fault e = None \<and> numeric rv \<longrightarrow>
        dict_get (last_action (snd (robot_message e ws (Some (motor_message (JInt 150) rv)) s)))
          ''left_motor'' = Some (JInt 100)
      \<and> ad_left_motor (last (action_table
          (snd (robot_message e ws (Some (motor_message (JInt 150) rv)) s)))) = JInt 100
      \<and> dict_get (last_action (snd (robot_message e ws (Some (motor_message (JInt (- 150)) rv)) s)))
          ''left_motor'' = Some (JInt (- 100))
      \<and> ad_left_motor (last (action_table
          (snd (robot_message e ws (Some (motor_message (JInt (- 150)) rv)) s)))) = JInt (- 100))"
proof (intro conjI impI)
  assume "left_motor a = 150 \<or> left_motor a = - 150"
  then show "post_actions e a s = (HTTPError 422 ''Unprocessable Entity'', s)"
    by (auto simp: post_actions_def ActionPayload_valid_def)
next
  assume h: "db_fault e = None \<and> numeric rv"
  then obtain cr where cr: "clamp_motor rv = Inr cr" using clamp_motor_numeric by blast
  have hi: "clamp_motor (JInt 150) = Inr (JInt 100)"
    and lo: "clamp_motor (JInt (- 150)) = Inr (JInt (- 100))"
    by (simp_all add: clamp_motor_int)
  show "dict_get (last_action (snd (robot_message e ws (Some (motor_message (JInt 150) rv)) s)))
          ''left_motor'' = Some (JInt 100)"
    using h by (simp add: robot_message_stored [OF hi cr] dict_get_action_update)
  show "ad_left_motor (last (action_table
          (snd (robot_message e ws (Some (motor_message (JInt 150) rv)) s)))) = JInt 100"
    using h by (simp add: robot_message_stored [OF hi cr] action_row_def)
  show "dict_get (last_action (snd (robot_message e ws (Some (motor_message (JInt (- 150)) rv)) s)))
          ''left_motor'' = Some (JInt (- 100))"
    using h by (simp add: robot_message_stored [OF lo cr] dict_get_action_update)
  show "ad_left_motor (last (action_table
          (snd (robot_message e ws (Some (motor_message (JInt (- 150)) rv)) s)))) = JInt (- 100)"
    using h by (simp add: robot_message_stored [OF lo cr] action_row_def)
qed

theorem out_of_range_post_is_rejected_and_the_robot_socket_clamps_witness:
  "left_motor \<lparr> left_motor = 150, right_motor = 0, source = None \<rparr> = 150
   \<and> db_fault (example_env None all_alive) = None \<and> numeric (JInt 0)
   \<and> post_actions (example_env None all_alive)
        \<lparr> left_motor = 150, right_motor = 0, source = None \<rparr> (serving [1, 2] [7])
      = (HTTPError 422 ''Unprocessable Entity'', serving [1, 2] [7])
   \<and> dict_get (last_action (snd (robot_message (example_env None all_alive) 7
        (Some (motor_message (JInt 150) (JInt 0))) (serving [1, 2] [7])))) ''left_motor''
      = Some (JInt 100)
   \<and> dict_get (last_action (snd (robot_message (example_env None all_alive) 7
        (Some (motor_message (JInt (- 150)) (JInt 0))) (serving [1, 2] [7])))) ''left_motor''
      = Some (JInt (- 100))"
  using out_of_range_post_is_rejected_and_the_robot_socket_clamps
          [of "\<lparr> left_motor = 150, right_motor = 0, source = None \<rparr>"
              "example_env None all_alive" "serving [1, 2] [7]" "JInt 0" 7]
  by (simp add: example_env_def)

text \<open>
  Claim C6 says that in every reachable state the cached setpoints are integers within
  the range. The robot socket clamps the value of the JSON message without looking at
  its type, where the request model of \<^verbatim>\<open>POST /actions/\<close> and the \<open>Integer\<close> columns of the
  table ask for an integer: the message \<^verbatim>\<open>{"left_motor": 50.5, "right_motor": 0}\<close> leaves
  the float 50.5 in the cache and in the stored row.
\<close>
theorem fractional_setpoint_reaches_the_cache:
  "dict_get (last_action (run
       [RobotOpen 7,
        RobotMessage (example_env None all_alive) 7
          (Some (motor_message (JFloat (Finite (101 / 2))) (JInt 0)))]
       (initial_state [] []))) ''left_motor'' = Some (JFloat (Finite (101 / 2)))
   \<and> \<not> cached_setpoints_ok integer_setpoint (last_action (run
       [RobotOpen 7,
        RobotMessage (example_env None all_alive) 7
          (Some (motor_message (JFloat (Finite (101 / 2))) (JInt 0)))]
       (initial_state [] [])))
   \<and> ad_left_motor (last (action_table (run
       [RobotOpen 7,
        RobotMessage (example_env None all_alive) 7
          (Some (motor_message (JFloat (Finite (101 / 2))) (JInt 0)))]
       (initial_state [] [])))) = JFloat (Finite (101 / 2))"
proof -
  have l: "clamp_motor (JFloat (Finite (101 / 2))) = Inr (JFloat (Finite (101 / 2)))"
    by (simp add: clamp_motor_def py_min_def py_max_def)
  have r: "clamp_motor (JInt 0) = Inr (JInt 0)"
    by (simp add: clamp_motor_int)
  have db: "db_fault (example_env None all_alive) = None"
    by (simp add: example_env_def)
  have half: "\<lfloor>(101 :: rat) / 2\<rfloor> = 50"
    by (simp add: floor_unique)
  have kept: "sqlite_integer (JFloat (Finite (101 / 2))) = JFloat (Finite (101 / 2))"
    by (simp add: half)
  show ?thesis
    by (simp add: robot_message_stored [OF l r db] dict_get_action_update
          cached_setpoints_ok_def action_row_def kept del: sqlite_integer.simps)
qed

text \<open>
  The range itself is kept: in every state a run of operations reaches from the first
  start of the process, both cached setpoints are numbers within the range.
\<close>
theorem cached_setpoints_stay_in_range:
  "cached_setpoints_ok setpoint_in_range (last_action (run ops (initial_state [] [])))"
proof -
  have "command_inv (run ops (initial_state [] []))"
    by (intro command_inv_run command_inv_initial)
  then show ?thesis by (simp add: command_inv_def)
qed

section \<open>Results on the telemetry cache and the dashboard socket\<close>

text \<open>
  Claim C5: after any non-empty sequence of successful \<^verbatim>\<open>POST /sensors/\<close> requests, from
  any state a run of operations reaches, the telemetry cache is exactly the snapshot of
  the last request of the sequence (its fields, the identifier of its row, the time of
  its ingestion), and \<^verbatim>\<open>GET /sensors/latest\<close> returns it. The time stamps the payloads
  carry play no part.
\<close>
theorem telemetry_cache_is_the_last_accepted_snapshot:
  assumes "\<forall>req \<in> set reqs. db_fault (fst req) = None" and "reqs \<noteq> []"
  shows "last_sensor_data (post_sensors reqs (run ops (initial_state [] []))) =
           telemetry_snapshot (fst (last reqs)) (snd (last reqs))
             (int (length (sensor_table (run ops (initial_state [] [])))) + int (length reqs))
       \<and> fst (get_latest_sensor_data (post_sensors reqs (run ops (initial_state [] [])))) =
           Returned (JObj (telemetry_snapshot (fst (last reqs)) (snd (last reqs))
             (int (length (sensor_table (run ops (initial_state [] [])))) + int (length reqs))))"
proof -
  have "telemetry_inv (run ops (initial_state [] []))"
    by (intro telemetry_inv_run telemetry_inv_initial)
  then have "last_sensor_data (post_sensors reqs (run ops (initial_state [] []))) =
           telemetry_snapshot (fst (last reqs)) (snd (last reqs))
             (int (length (sensor_table (run ops (initial_state [] [])))) + int (length reqs))"
    using assms by (rule post_sensors_cache)
  then show ?thesis
    by (simp add: get_latest_sensor_data_cached telemetry_snapshot_not_empty)
qed

theorem telemetry_cache_is_the_last_accepted_snapshot_witness:
  "db_fault (fst (example_env None all_alive, example_payload 1 20)) = None
   \<and> db_fault (fst (example_env None all_alive, example_payload 2 10)) = None
   \<and> [(example_env None all_alive, example_payload 1 20),
       (example_env None all_alive, example_payload 2 10)] \<noteq> []
   \<and> last_sensor_data (post_sensors
         [(example_env None all_alive, example_payload 1 20),
          (example_env None all_alive, example_payload 2 10)] (run [] (initial_state [] [])))
      = telemetry_snapshot (example_env None all_alive) (example_payload 2 10) 2
   \<and> fst (get_latest_sensor_data (post_sensors
         [(example_env None all_alive, example_payload 1 20),
          (example_env None all_alive, example_payload 2 10)] (run [] (initial_state [] []))))
      = Returned (JObj (telemetry_snapshot (example_env None all_alive) (example_payload 2 10) 2))"
  using telemetry_cache_is_the_last_accepted_snapshot
          [of "[(example_env None all_alive, example_payload 1 20),
                (example_env None all_alive, example_payload 2 10)]" "[]"]
  by (simp add: example_env_def initial_state_def)

text \<open>
  Claim C9: in a state a run of operations reaches in which a telemetry sample has been
  stored and no command has, a dashboard that connects is sent the \<open>initial_data\<close>
  payload whose \<open>last_action\<close> is the module-level default: both setpoints 0,
  \<open>timestamp\<close> and \<open>source\<close> null, and no \<open>id\<close>.
\<close>
theorem initial_data_carries_the_default_last_action:
  assumes "sensor_table (run ops (initial_state [] [])) \<noteq> []"
    and "action_table (run ops (initial_state [] [])) = []"
  shows "wire (dashboard_websocket_open e ws (run ops (initial_state [] []))) =
           wire (run ops (initial_state [] [])) @
           [(ws, JObj [(''type'', JStr ''initial_data''),
                       (''sensors'', JObj (last_sensor_data (run ops (initial_state [] [])))),
                       (''last_action'',
                        JObj [(''left_motor'', JInt 0), (''right_motor'', JInt 0),
                              (''timestamp'', JNull), (''source'', JNull)])],
             send_json e ws)]"
proof -
  let ?s = "run ops (initial_state [] [])"
  have "telemetry_inv ?s" by (intro telemetry_inv_run telemetry_inv_initial)
  then have cache: "last_sensor_data ?s \<noteq> []" using assms(1) by (simp add: telemetry_inv_def)
  have "command_inv ?s" by (intro command_inv_run command_inv_initial)
  then have "last_action ?s = initial_last_action" using assms(2) by (simp add: command_inv_def)
  then show ?thesis
    using cache
    by (simp add: dashboard_websocket_open_def connect_dashboard_def Let_def send_def
          initial_data_def initial_last_action_def)
qed

theorem initial_data_carries_the_default_last_action_witness:
  "sensor_table (run [PostSensors (example_env None all_alive) (example_payload 1 20)]
      (initial_state [] [])) \<noteq> []
   \<and> action_table (run [PostSensors (example_env None all_alive) (example_payload 1 20)]
      (initial_state [] [])) = []
   \<and> received (wire (dashboard_websocket_open (example_env None all_alive) 3
        (run [PostSensors (example_env None all_alive) (example_payload 1 20)]
           (initial_state [] [])))) 3
      = [JObj [(''type'', JStr ''initial_data''),
               (''sensors'', JObj (telemetry_snapshot (example_env None all_alive)
                                     (example_payload 1 20) 1)),
               (''last_action'',
                JObj [(''left_motor'', JInt 0), (''right_motor'', JInt 0),
                      (''timestamp'', JNull), (''source'', JNull)])]]"
proof -
  let ?e = "example_env None all_alive"
  let ?s = "run [PostSensors ?e (example_payload 1 20)] (initial_state [] [])"
  have db: "db_fault ?e = None" and tx: "send_json ?e 3 = None"
    by (simp_all add: example_env_def all_alive_def)
  have bc: "broadcast_sensor_data ?e m (s\<lparr> active_dashboard_connections := [], wire := [] \<rparr>)
              = s\<lparr> active_dashboard_connections := [], wire := [] \<rparr>" for m s
    by (simp add: broadcast_sensor_data_def broadcast_def broadcast_from_end)
  have st: "sensor_table ?s \<noteq> []" and at: "action_table ?s = []"
    using db by (simp_all add: store_sensor_data_telemetry initial_state_def)
  have cache: "last_sensor_data ?s = telemetry_snapshot ?e (example_payload 1 20) 1"
    using db
    by (simp add: store_sensor_data_telemetry initial_state_def telemetry_overwrite
          telemetry_snapshot_keys)
  have w: "wire ?s = []"
    using db
    by (simp add: store_sensor_data_def Let_def initial_state_def broadcast_sensor_data_def
          broadcast_def broadcast_from_end)
  show ?thesis
    using initial_data_carries_the_default_last_action
            [of "[PostSensors ?e (example_payload 1 20)]" ?e 3] st at cache w tx
    by (simp add: received_def)
qed

end
